theory Spec2Isabelle
  imports Main "HOL-Library.Word" "HOL-Library.Monad_Syntax"
begin

section \<open>The rfqrelayer ledger and node, embedded from the Go source\<close>

text \<open>
  The theory follows \<^verbatim>\<open>core/blockchain.go\<close> (package core) and the server file of package
  network. A Go method that mutates its receiver takes the receiver's state and returns the
  new one. A call that cannot return is a value too: it panics (a nil dereference, an index
  out of range) or it hangs, blocked on a mutex for ever. Operations are modelled one at a time,
  each run to its end; a mutex found held when an operation starts is therefore held by a
  goroutine that will never release it, and waiting for it is waiting for ever.
\<close>

subsection \<open>Outcomes, errors, mutexes\<close>

datatype panic = NilDereference | IndexOutOfRange

datatype 'a outcome = Returns 'a | Panics panic | Hangs

type_synonym bytes = "8 word list"
type_synonym Hash = "256 word"
type_synonym Address = "160 word"

text \<open>
  The errors the two files build with \<^verbatim>\<open>fmt.Errorf\<close>, one constructor per format string,
  and \<open>External\<close> for an error handed up by a collaborator (validator, signature check,
  codec, store, socket).
\<close>

datatype error =
    MalformedBlockIsNil
  | MalformedBlockHeaderIsNil
  | HeightLessThanRequested int int
  | BlockWithHashNotFound Hash
  | UnknownTransactionType "8 word"
  | ErrorWritingToKvStoreTables error
  | ErrorDecodingRFQRequest error
  | ErrorIteratingOverTransactions error
  | PeerNotFound
  | External string

text \<open>
  \<^verbatim>\<open>sync.RWMutex\<close>. \<open>Lock\<close> and \<open>RLock\<close> return \<open>None\<close> where the Go call
  would wait. The mutex is not reentrant: a read lock is refused while the write lock is
  held, also when the caller is the holder.
\<close>

record RWMutex =
  writer :: bool
  readers :: nat

definition Lock :: "RWMutex \<Rightarrow> RWMutex option" where
  "Lock m = (if writer m \<or> 0 < readers m then None else Some (m\<lparr>writer := True\<rparr>))"

definition Unlock :: "RWMutex \<Rightarrow> RWMutex" where
  "Unlock m = m\<lparr>writer := False\<rparr>"

definition RLock :: "RWMutex \<Rightarrow> RWMutex option" where
  "RLock m = (if writer m then None else Some (m\<lparr>readers := Suc (readers m)\<rparr>))"

definition RUnlock :: "RWMutex \<Rightarrow> RWMutex" where
  "RUnlock m = m\<lparr>readers := readers m - 1\<rparr>"

definition unlocked :: RWMutex where
  "unlocked = \<lparr>writer = False, readers = 0\<rparr>"

subsection \<open>big.Int conversions\<close>

text \<open>
  \<^verbatim>\<open>(*big.Int).Int64\<close> keeps the low 64 bits of the magnitude and negates for a negative
  number, which is the two's complement reading of the number; \<^verbatim>\<open>Uint64\<close> is the low 64
  bits of the magnitude; \<^verbatim>\<open>uint64(i)\<close> of an \<^verbatim>\<open>int64\<close> reinterprets the bits.
\<close>

definition Int64 :: "int \<Rightarrow> int" where
  "Int64 x = sint (word_of_int x :: 64 word)"

definition Uint64 :: "int \<Rightarrow> 64 word" where
  "Uint64 x = word_of_int \<bar>x\<bar>"

definition uint64 :: "int \<Rightarrow> 64 word" where
  "uint64 i = word_of_int i"

subsection \<open>Package types: transactions, headers, blocks\<close>

text \<open>
  Package \<^verbatim>\<open>types\<close> is used by the two files and is not among them. A value of one of its
  types is the record of what its accessors return: \<^verbatim>\<open>tx.Type()\<close>, \<^verbatim>\<open>tx.Hash()\<close>,
  \<^verbatim>\<open>tx.ReferenceTxHash()\<close>, \<^verbatim>\<open>tx.Data()\<close>, \<^verbatim>\<open>tx.From()\<close> (a pointer),
  \<^verbatim>\<open>tx.RFQData()\<close>, \<^verbatim>\<open>tx.RawSignatureValues()\<close> (three \<^verbatim>\<open>*big.Int\<close>). The field lists
  of \<open>SignableData\<close>, \<open>Token\<close> and \<open>Header\<close> are those of the struct literals in the
  request generator and in \<^verbatim>\<open>block_test.go\<close>.
\<close>

record Token =
  Address :: Address
  Symbol :: string
  Decimals :: nat

record SignableData =
  RequestorId :: string
  BaseTokenAmount :: int
  BaseToken :: Token
  QuoteToken :: Token
  RFQDurationMs :: nat

record RFQRequest =
  From :: Address
  Data :: SignableData
  V :: "int option"
  R :: "int option"
  S :: "int option"

record Transaction =
  txType :: "8 word"
  txHash :: Hash
  txReferenceTxHash :: Hash
  txData :: bytes
  txFrom :: "Address option"
  txRFQData :: SignableData
  txV :: "int option"
  txR :: "int option"
  txS :: "int option"

record Header =
  Version :: "64 word"
  ParentHash :: Hash
  TxHash :: Hash
  hdrHeight :: int
  Timestamp :: "64 word"
  BlockSignature :: "bytes option"

text \<open>\<^verbatim>\<open>b.Header()\<close> is a pointer that \<^verbatim>\<open>VerifyBlock\<close> tests for nil.\<close>

record Block =
  header :: "Header option"
  transactions :: "Transaction list"
  Validator :: "bytes option"

subsection \<open>The storage collaborator\<close>

text \<open>
  Modelled from the spec: packages \<^verbatim>\<open>rawdb\<close>, \<^verbatim>\<open>rfqdb\<close> and \<^verbatim>\<open>pebble\<close> are missing.
  The spec (sections 4.1, 6, 7) gives the store \<^verbatim>\<open>Put(key, value) -> error\<close> and
  \<^verbatim>\<open>NewIterator -> sequence of (key, value)\<close>, six tables under one storage instance, and
  blocks stored keyed by header hash and height. A table is its rows in key order (every
  key the ledger uses is the 32 bytes of a hash, compared here as the number they spell)
  and the error a failed store answers with: such a store refuses a write, and its
  iterator reports the error after the rows it still delivered.
\<close>

record Table =
  rows :: "(Hash \<times> bytes) list"
  failure :: "error option"

fun put_row :: "Hash \<Rightarrow> bytes \<Rightarrow> (Hash \<times> bytes) list \<Rightarrow> (Hash \<times> bytes) list" where
  "put_row k v [] = [(k, v)]"
| "put_row k v ((k', v') # rs) =
     (if k = k' then (k, v) # rs
      else if k < k' then (k, v) # (k', v') # rs
      else (k', v') # put_row k v rs)"

definition Put :: "Table \<Rightarrow> Hash \<Rightarrow> bytes \<Rightarrow> error option \<times> Table" where
  "Put t k v =
     (case failure t of
        Some e \<Rightarrow> (Some e, t)
      | None \<Rightarrow> (None, t\<lparr>rows := put_row k v (rows t)\<rparr>))"

record Iterator =
  values_left :: "bytes list"
  iter_error :: "error option"

definition NewIterator :: "Table \<Rightarrow> Iterator" where
  "NewIterator t = \<lparr>values_left = map snd (rows t), iter_error = failure t\<rparr>"

definition empty_table :: Table where
  "empty_table = \<lparr>rows = [], failure = None\<rparr>"

type_synonym BlockStore = "Hash \<times> 64 word \<Rightarrow> Block option"

text \<open>
  \<^verbatim>\<open>rawdb.WriteBlock(db, b)\<close> files the block under its hash and number, and
  \<^verbatim>\<open>rawdb.ReadBlock(db, hash, number)\<close> reads that slot. The block's hash is its header's
  (\<open>hh\<close>, the missing \<^verbatim>\<open>Header.Hash\<close>), its number \<^verbatim>\<open>Height.Uint64()\<close>.
\<close>

definition WriteBlock :: "(Header \<Rightarrow> Hash) \<Rightarrow> BlockStore \<Rightarrow> Block \<Rightarrow> Header \<Rightarrow> BlockStore" where
  "WriteBlock hh store b h = store((hh h, Uint64 (hdrHeight h)) \<mapsto> b)"

definition ReadBlock :: "BlockStore \<Rightarrow> Hash \<Rightarrow> 64 word \<Rightarrow> Block option" where
  "ReadBlock store hash number = store (hash, number)"

record Database =
  blocks :: BlockStore
  table :: "string \<Rightarrow> Table"

definition NewTable :: "Database \<Rightarrow> string \<Rightarrow> Table" where
  "NewTable d name = table d name"

subsection \<open>The ledger: \<^verbatim>\<open>core.Blockchain\<close>\<close>

text \<open>
  The fields the operations below read or write. \<open>validator\<close> says whether
  \<^verbatim>\<open>bc.validator\<close> is non-nil; the validator's \<^verbatim>\<open>ValidateBlock\<close> and the transactions'
  \<^verbatim>\<open>Verify\<close> are missing and are parameters \<open>ValidateBlock\<close> and \<open>Verify\<close> of the
  functions that call them.
\<close>

record Blockchain =
  db :: BlockStore
  lock :: RWMutex
  headers :: "Header list"
  rfqRequestsTable :: Table
  openRFQSTable :: Table
  closedRFQSTable :: Table
  matchedRFQSTable :: Table
  settledRFQSTable :: Table
  quotesTable :: Table
  genesisBlock :: "Block option"
  validator :: bool
  currentBlock :: "Header option"

definition Height :: "Blockchain \<Rightarrow> int outcome" where
  "Height bc =
     (case RLock (lock bc) of
        None \<Rightarrow> Hangs
      | Some m \<Rightarrow> Returns (int (length (headers bc)) - 1))"

definition Headers :: "Blockchain \<Rightarrow> Header list" where
  "Headers bc = headers bc"

definition CurrentBlock :: "Blockchain \<Rightarrow> Header option" where
  "CurrentBlock bc = currentBlock bc"

definition GetBlockHeader :: "Blockchain \<Rightarrow> int \<Rightarrow> (error + Header) outcome" where
  "GetBlockHeader bc height =
     (if int (length (headers bc)) < height
      then Returns (Inl (HeightLessThanRequested (int (length (headers bc))) (Int64 height)))
      else if 0 \<le> Int64 height \<and> Int64 height < int (length (headers bc))
      then Returns (Inr (headers bc ! nat (Int64 height)))
      else Panics IndexOutOfRange)"

text \<open>
  \<^verbatim>\<open>GetBlock\<close> takes the read lock after the height test and gives it back on the
  successful path only.
\<close>

definition GetBlock :: "(Header \<Rightarrow> Hash) \<Rightarrow> Blockchain \<Rightarrow> int \<Rightarrow> (error + Block) outcome \<times> Blockchain" where
  "GetBlock hh bc height =
     (case Height bc of
        Hangs \<Rightarrow> (Hangs, bc)
      | Panics p \<Rightarrow> (Panics p, bc)
      | Returns currHeight \<Rightarrow>
         (if currHeight < height
          then (Returns (Inl (HeightLessThanRequested currHeight (Int64 height))), bc)
          else
            (case RLock (lock bc) of
               None \<Rightarrow> (Hangs, bc)
             | Some m \<Rightarrow>
                (let bc1 = bc\<lparr>lock := m\<rparr> in
                 case GetBlockHeader bc1 height of
                   Hangs \<Rightarrow> (Hangs, bc1)
                 | Panics p \<Rightarrow> (Panics p, bc1)
                 | Returns (Inl err) \<Rightarrow> (Returns (Inl err), bc1)
                 | Returns (Inr blockHeader) \<Rightarrow>
                    (case ReadBlock (db bc1) (hh blockHeader) (uint64 (Int64 height)) of
                       None \<Rightarrow> (Returns (Inl (BlockWithHashNotFound (hh blockHeader))), bc1)
                     | Some block \<Rightarrow> (Returns (Inr block), bc1\<lparr>lock := RUnlock m\<rparr>))))))"

text \<open>
  \<^verbatim>\<open>addBlockWithoutValidation\<close>: under the write lock the header is appended and the block
  written; then the head pointer is stored, and the first block becomes the genesis block.
  It always returns nil. \<^verbatim>\<open>rawdb.WriteBlock\<close> and \<^verbatim>\<open>b.Hash()\<close> read the header, so a
  block without one panics there; \<^verbatim>\<open>VerifyBlock\<close> never passes such a block.
\<close>

definition addBlockWithoutValidation ::
    "(Header \<Rightarrow> Hash) \<Rightarrow> Blockchain \<Rightarrow> Block \<Rightarrow> error option outcome \<times> Blockchain" where
  "addBlockWithoutValidation hh bc b =
     (case Lock (lock bc) of
        None \<Rightarrow> (Hangs, bc)
      | Some m \<Rightarrow>
         (case header b of
            None \<Rightarrow> (Panics NilDereference, bc\<lparr>lock := m\<rparr>)
          | Some h \<Rightarrow>
             (let bc1 = bc\<lparr>lock := m\<rparr>;
                  bc2 = bc1\<lparr>headers := headers bc1 @ [h]\<rparr>;
                  bc3 = bc2\<lparr>db := WriteBlock hh (db bc2) b h\<rparr>;
                  bc4 = bc3\<lparr>lock := Unlock (lock bc3)\<rparr>;
                  bc5 = bc4\<lparr>currentBlock := Some h\<rparr>
              in if length (headers bc5) = 1
                 then (Returns None, bc5\<lparr>genesisBlock := Some b\<rparr>)
                 else (Returns None, bc5))))"

fun verifyTransactions :: "(Transaction \<Rightarrow> error option) \<Rightarrow> Transaction list \<Rightarrow> error option" where
  "verifyTransactions Verify [] = None"
| "verifyTransactions Verify (tx # txs) =
     (case Verify tx of
        Some err \<Rightarrow> Some err
      | None \<Rightarrow> verifyTransactions Verify txs)"

definition VerifyBlock ::
    "(Blockchain \<Rightarrow> Block \<Rightarrow> error option) \<Rightarrow> (Transaction \<Rightarrow> error option) \<Rightarrow> (Header \<Rightarrow> Hash) \<Rightarrow>
     Blockchain \<Rightarrow> Block option \<Rightarrow> error option outcome \<times> Blockchain" where
  "VerifyBlock ValidateBlock Verify hh bc b =
     (case b of
        None \<Rightarrow> (Returns (Some MalformedBlockIsNil), bc)
      | Some blk \<Rightarrow>
         (case header blk of
            None \<Rightarrow> (Returns (Some MalformedBlockHeaderIsNil), bc)
          | Some h \<Rightarrow>
             (case (if validator bc then ValidateBlock bc blk else None) of
                Some err \<Rightarrow> (Returns (Some err), bc)
              | None \<Rightarrow>
                 (case verifyTransactions Verify (transactions blk) of
                    Some err \<Rightarrow> (Returns (Some err), bc)
                  | None \<Rightarrow> addBlockWithoutValidation hh bc blk))))"

text \<open>
  \<^verbatim>\<open>NewBlockchain\<close>: the tables are opened, a validator node commits the genesis block
  without validation and reads it back, and the last statement stores nil into the head
  pointer. \<^verbatim>\<open>GetBlock\<close> returns a block or an error, so the test for a nil block after
  it has no branch here.
\<close>

definition NewBlockchain ::
    "(Header \<Rightarrow> Hash) \<Rightarrow> Block option \<Rightarrow> Database \<Rightarrow> bool \<Rightarrow> (error + Blockchain) outcome" where
  "NewBlockchain hh genesis d is_validator =
     (let bc = \<lparr>db = blocks d, lock = unlocked, headers = [],
                rfqRequestsTable = NewTable d ''rfqRequests'',
                openRFQSTable = NewTable d ''openRFQs'',
                closedRFQSTable = NewTable d ''closeRFQs'',
                matchedRFQSTable = NewTable d ''matchedRFQs'',
                settledRFQSTable = NewTable d ''settledRFQs'',
                quotesTable = NewTable d ''quotes'',
                genesisBlock = None, validator = False, currentBlock = None\<rparr>
      in if is_validator
         then
           (let bc1 = bc\<lparr>validator := True\<rparr> in
            case genesis of
              None \<Rightarrow> Panics NilDereference
            | Some g \<Rightarrow>
               (case addBlockWithoutValidation hh bc1 g of
                  (Hangs, bc2) \<Rightarrow> Hangs
                | (Panics p, bc2) \<Rightarrow> Panics p
                | (Returns (Some err), bc2) \<Rightarrow> Returns (Inl err)
                | (Returns None, bc2) \<Rightarrow>
                   (case GetBlock hh bc2 0 of
                      (Hangs, bc3) \<Rightarrow> Hangs
                    | (Panics p, bc3) \<Rightarrow> Panics p
                    | (Returns (Inl err), bc3) \<Rightarrow> Returns (Inl err)
                    | (Returns (Inr genesis'), bc3) \<Rightarrow>
                       Returns (Inr (bc3\<lparr>genesisBlock := Some genesis', currentBlock := None\<rparr>)))))
         else Returns (Inr (bc\<lparr>currentBlock := None\<rparr>)))"

subsection \<open>The RFQ tables: \<^verbatim>\<open>WriteRFQTxs\<close> and \<^verbatim>\<open>GetRFQRequests\<close>\<close>

text \<open>
  The six type tags are constants of package \<^verbatim>\<open>types\<close> (\<^verbatim>\<open>uint8\<close>); their values are not
  in the files at hand, so the functions take them as a parameter. The \<^verbatim>\<open>switch\<close> tries
  its cases in the order written. \<open>EncodeRLP\<close> stands for the missing
  \<^verbatim>\<open>(*RFQRequest).EncodeRLP\<close> and \<open>DecodeBytes\<close> for \<^verbatim>\<open>rlp.DecodeBytes\<close> into an
  \<^verbatim>\<open>RFQRequest\<close>.
\<close>

record TxTypes =
  RFQRequestTxType :: "8 word"
  OpenRFQTxType :: "8 word"
  ClosedRFQTxType :: "8 word"
  MatchedRFQTxType :: "8 word"
  SettledRFQTxType :: "8 word"
  QuoteTxType :: "8 word"

definition kvError :: "error option \<Rightarrow> error option" where
  "kvError err = (case err of Some e \<Rightarrow> Some (ErrorWritingToKvStoreTables e) | None \<Rightarrow> None)"

text \<open>
  The write lock is taken first and released by a deferred \<^verbatim>\<open>Unlock\<close>, which also runs
  when \<^verbatim>\<open>*tx.From()\<close> panics on a nil pointer.
\<close>

definition WriteRFQTxs ::
    "TxTypes \<Rightarrow> (RFQRequest \<Rightarrow> error + bytes) \<Rightarrow> Blockchain \<Rightarrow> Transaction \<Rightarrow>
     error option outcome \<times> Blockchain" where
  "WriteRFQTxs T EncodeRLP bc tx =
     (case Lock (lock bc) of
        None \<Rightarrow> (Hangs, bc)
      | Some m \<Rightarrow>
         (let bc1 = bc\<lparr>lock := m\<rparr>;
              (r, bc2) =
                (if txType tx = RFQRequestTxType T then
                   (case txFrom tx of
                      None \<Rightarrow> (Panics NilDereference, bc1)
                    | Some fromAddr \<Rightarrow>
                       (let rfqRequest = \<lparr>From = fromAddr, Data = txRFQData tx,
                                           V = txV tx, R = txR tx, S = txS tx\<rparr>
                        in case EncodeRLP rfqRequest of
                             Inl err \<Rightarrow> (Returns (Some err), bc1)
                           | Inr encRFQ \<Rightarrow>
                              (let (err, t) = Put (rfqRequestsTable bc1) (txHash tx) encRFQ
                               in (Returns (kvError err), bc1\<lparr>rfqRequestsTable := t\<rparr>))))
                 else if txType tx = OpenRFQTxType T then
                   (let (err, t) = Put (openRFQSTable bc1) (txReferenceTxHash tx) (txData tx)
                    in (Returns (kvError err), bc1\<lparr>openRFQSTable := t\<rparr>))
                 else if txType tx = ClosedRFQTxType T then
                   (let (err, t) = Put (closedRFQSTable bc1) (txReferenceTxHash tx) (txData tx)
                    in (Returns (kvError err), bc1\<lparr>closedRFQSTable := t\<rparr>))
                 else if txType tx = MatchedRFQTxType T then
                   (let (err, t) = Put (matchedRFQSTable bc1) (txReferenceTxHash tx) (txData tx)
                    in (Returns (kvError err), bc1\<lparr>matchedRFQSTable := t\<rparr>))
                 else if txType tx = SettledRFQTxType T then
                   (let (err, t) = Put (settledRFQSTable bc1) (txReferenceTxHash tx) (txData tx)
                    in (Returns (kvError err), bc1\<lparr>settledRFQSTable := t\<rparr>))
                 else if txType tx = QuoteTxType T then
                   (let (err, t) = Put (quotesTable bc1) (txReferenceTxHash tx) (txData tx)
                    in (Returns (kvError err), bc1\<lparr>quotesTable := t\<rparr>))
                 else (Returns (Some (UnknownTransactionType (txType tx))), bc1))
          in (r, bc2\<lparr>lock := Unlock (lock bc2)\<rparr>)))"

text \<open>
  The loop of \<^verbatim>\<open>GetRFQRequests\<close> over the iterator: a record that does not decode ends
  the call with that error; the iterator's own error is looked at after the last record.
\<close>

fun decodeRequests ::
    "(bytes \<Rightarrow> error + RFQRequest) \<Rightarrow> bytes list \<Rightarrow> RFQRequest list \<Rightarrow> error + RFQRequest list" where
  "decodeRequests DecodeBytes [] rfqRequests = Inr rfqRequests"
| "decodeRequests DecodeBytes (data # rest) rfqRequests =
     (case DecodeBytes data of
        Inl err \<Rightarrow> Inl (ErrorDecodingRFQRequest err)
      | Inr rfqRequest \<Rightarrow> decodeRequests DecodeBytes rest (rfqRequests @ [rfqRequest]))"

definition GetRFQRequests :: "(bytes \<Rightarrow> error + RFQRequest) \<Rightarrow> Blockchain \<Rightarrow> error + RFQRequest list" where
  "GetRFQRequests DecodeBytes bc =
     (let it = NewIterator (rfqRequestsTable bc) in
      case decodeRequests DecodeBytes (values_left it) [] of
        Inl err \<Rightarrow> Inl err
      | Inr rfqRequests \<Rightarrow>
         (case iter_error it of
            Some err \<Rightarrow> Inl (ErrorIteratingOverTransactions err)
          | None \<Rightarrow> Inr rfqRequests))"

subsection \<open>The request codec\<close>

text \<open>
  Modelled from the spec: \<^verbatim>\<open>(*RFQRequest).EncodeRLP\<close> of package \<^verbatim>\<open>types\<close> and
  \<^verbatim>\<open>rlp.DecodeBytes\<close> are missing. The spec has the request table hold the encoded
  \<^verbatim>\<open>RFQRequest\<close> in the ledger's canonical byte encoding (sections 1, 2 and 6) and
  \<^verbatim>\<open>GetRFQRequests\<close> decode each record (section 4.1). The encoding the ledger imports
  is RLP, and these are its rules. A byte string of one byte below \<^verbatim>\<open>0x80\<close> is that byte;
  a string of fewer than 56 bytes is \<^verbatim>\<open>0x80\<close> plus its length, then the bytes; a longer
  one is \<^verbatim>\<open>0xb7\<close> plus the length of its length, the length in big-endian bytes, then
  the bytes. A list is written the same way around its concatenated items, from \<^verbatim>\<open>0xc0\<close>
  and \<^verbatim>\<open>0xf7\<close>. An unsigned number is the string of its big-endian bytes without
  leading zeros; a negative \<^verbatim>\<open>big.Int\<close> is not encoded; a nil \<^verbatim>\<open>*big.Int\<close> is the
  empty string, which reads back as 0. An address is the string of its 20 bytes, a Go
  string the string of its bytes, and a struct the list of its fields in order. The
  reader refuses input that is too short, a length with a leading zero or below 56 in the
  long form, a single byte below \<^verbatim>\<open>0x80\<close> wrapped as a string, a number with a leading
  zero, and bytes left over after the value. The widths of the unsigned fields are not
  in the sources, and the numbers here have none.
\<close>

fun be_bytes :: "nat \<Rightarrow> bytes" where
  "be_bytes n = (if n = 0 then [] else be_bytes (n div 256) @ [of_nat (n mod 256)])"

declare be_bytes.simps [simp del]

definition be_nat :: "bytes \<Rightarrow> nat" where
  "be_nat bs = foldl (\<lambda>a b. 256 * a + unat b) 0 bs"

definition rlp_header :: "nat \<Rightarrow> nat \<Rightarrow> bytes option" where
  "rlp_header offset n =
     (if n < 56 then Some [of_nat (offset + n)]
      else (let l = be_bytes n
            in if length l \<le> 8 then Some (of_nat (offset + 55 + length l) # l) else None))"

definition rlp_string :: "bytes \<Rightarrow> bytes option" where
  "rlp_string bs =
     (if length bs = 1 \<and> hd bs < 0x80 then Some bs
      else map_option (\<lambda>h. h @ bs) (rlp_header 0x80 (length bs)))"

definition rlp_list :: "bytes \<Rightarrow> bytes option" where
  "rlp_list payload = map_option (\<lambda>h. h @ payload) (rlp_header 0xc0 (length payload))"

definition rlp_uint :: "nat \<Rightarrow> bytes option" where
  "rlp_uint n = rlp_string (be_bytes n)"

definition rlp_bigint :: "int \<Rightarrow> bytes option" where
  "rlp_bigint i = (if i < 0 then None else rlp_uint (nat i))"

definition take_exactly :: "nat \<Rightarrow> bytes \<Rightarrow> (bytes \<times> bytes) option" where
  "take_exactly n bs = (if length bs < n then None else Some (take n bs, drop n bs))"

definition long_size :: "bytes \<Rightarrow> nat option" where
  "long_size l = (if l = [] \<or> hd l = 0 \<or> be_nat l < 56 then None else Some (be_nat l))"

definition read_payload :: "nat \<Rightarrow> nat \<Rightarrow> bytes \<Rightarrow> (bytes \<times> bytes) option" where
  "read_payload offset k rest =
     (if k < offset + 56 then take_exactly (k - offset) rest
      else (case take_exactly (k - (offset + 55)) rest of
              None \<Rightarrow> None
            | Some (l, r) \<Rightarrow> (case long_size l of None \<Rightarrow> None | Some n \<Rightarrow> take_exactly n r)))"

definition read_string :: "bytes \<Rightarrow> (bytes \<times> bytes) option" where
  "read_string input =
     (case input of
        [] \<Rightarrow> None
      | b # rest \<Rightarrow>
         if b < 0x80 then Some ([b], rest)
         else if b < 0xc0 then
           (case read_payload 0x80 (unat b) rest of
              None \<Rightarrow> None
            | Some (s, r) \<Rightarrow> if length s = 1 \<and> hd s < 0x80 then None else Some (s, r))
         else None)"

definition read_list :: "bytes \<Rightarrow> (bytes \<times> bytes) option" where
  "read_list input =
     (case input of
        [] \<Rightarrow> None
      | b # rest \<Rightarrow> if b < 0xc0 then None else read_payload 0xc0 (unat b) rest)"

definition read_uint :: "bytes \<Rightarrow> (nat \<times> bytes) option" where
  "read_uint input =
     (case read_string input of
        None \<Rightarrow> None
      | Some (s, r) \<Rightarrow> if s \<noteq> [] \<and> hd s = 0 then None else Some (be_nat s, r))"

definition string_bytes :: "string \<Rightarrow> bytes" where
  "string_bytes s = map (\<lambda>c. of_nat (of_char c)) s"

definition bytes_string :: "bytes \<Rightarrow> string" where
  "bytes_string bs = map (\<lambda>b. char_of (unat b)) bs"

definition address_bytes :: "Address \<Rightarrow> bytes" where
  "address_bytes a = (let l = be_bytes (unat a) in replicate (20 - length l) 0 @ l)"

definition bytes_address :: "bytes \<Rightarrow> Address option" where
  "bytes_address bs = (if length bs = 20 then Some (of_nat (be_nat bs)) else None)"

definition rlp_bigint_pointer :: "int option \<Rightarrow> bytes option" where
  "rlp_bigint_pointer p = (case p of None \<Rightarrow> rlp_string [] | Some i \<Rightarrow> rlp_bigint i)"

definition encode_Token :: "Token \<Rightarrow> bytes option" where
  "encode_Token t = do {
     a \<leftarrow> rlp_string (address_bytes (Address t));
     s \<leftarrow> rlp_string (string_bytes (Symbol t));
     d \<leftarrow> rlp_uint (Decimals t);
     rlp_list (a @ s @ d)
   }"

definition read_Token :: "bytes \<Rightarrow> (Token \<times> bytes) option" where
  "read_Token input = do {
     (payload, rest) \<leftarrow> read_list input;
     (a, r1) \<leftarrow> read_string payload;
     addr \<leftarrow> bytes_address a;
     (s, r2) \<leftarrow> read_string r1;
     (d, r3) \<leftarrow> read_uint r2;
     if r3 = [] then Some (\<lparr>Address = addr, Symbol = bytes_string s, Decimals = d\<rparr>, rest) else None
   }"

definition encode_SignableData :: "SignableData \<Rightarrow> bytes option" where
  "encode_SignableData x = do {
     i \<leftarrow> rlp_string (string_bytes (RequestorId x));
     a \<leftarrow> rlp_bigint (BaseTokenAmount x);
     b \<leftarrow> encode_Token (BaseToken x);
     q \<leftarrow> encode_Token (QuoteToken x);
     d \<leftarrow> rlp_uint (RFQDurationMs x);
     rlp_list (i @ a @ b @ q @ d)
   }"

definition read_SignableData :: "bytes \<Rightarrow> (SignableData \<times> bytes) option" where
  "read_SignableData input = do {
     (payload, rest) \<leftarrow> read_list input;
     (i, r1) \<leftarrow> read_string payload;
     (a, r2) \<leftarrow> read_uint r1;
     (b, r3) \<leftarrow> read_Token r2;
     (q, r4) \<leftarrow> read_Token r3;
     (d, r5) \<leftarrow> read_uint r4;
     if r5 = []
     then Some (\<lparr>RequestorId = bytes_string i, BaseTokenAmount = int a, BaseToken = b,
                 QuoteToken = q, RFQDurationMs = d\<rparr>, rest)
     else None
   }"

definition encode_RFQRequest :: "RFQRequest \<Rightarrow> bytes option" where
  "encode_RFQRequest x = do {
     f \<leftarrow> rlp_string (address_bytes (From x));
     d \<leftarrow> encode_SignableData (Data x);
     v \<leftarrow> rlp_bigint_pointer (V x);
     r \<leftarrow> rlp_bigint_pointer (R x);
     s \<leftarrow> rlp_bigint_pointer (S x);
     rlp_list (f @ d @ v @ r @ s)
   }"

definition read_RFQRequest :: "bytes \<Rightarrow> (RFQRequest \<times> bytes) option" where
  "read_RFQRequest input = do {
     (payload, rest) \<leftarrow> read_list input;
     (f, r1) \<leftarrow> read_string payload;
     addr \<leftarrow> bytes_address f;
     (d, r2) \<leftarrow> read_SignableData r1;
     (v, r3) \<leftarrow> read_uint r2;
     (r, r4) \<leftarrow> read_uint r3;
     (s, r5) \<leftarrow> read_uint r4;
     if r5 = []
     then Some (\<lparr>From = addr, Data = d, V = Some (int v), R = Some (int r), S = Some (int s)\<rparr>, rest)
     else None
   }"

definition RFQRequest_EncodeRLP :: "RFQRequest \<Rightarrow> error + bytes" where
  "RFQRequest_EncodeRLP x =
     (case encode_RFQRequest x of
        None \<Rightarrow> Inl (External ''rlp: cannot encode'')
      | Some enc \<Rightarrow> Inr enc)"

definition rlp_DecodeBytes :: "bytes \<Rightarrow> error + RFQRequest" where
  "rlp_DecodeBytes data =
     (case read_RFQRequest data of
        None \<Rightarrow> Inl (External ''rlp: cannot decode'')
      | Some (x, rest) \<Rightarrow>
         if rest = [] then Inr x else Inl (External ''rlp: input contains more than one value''))"

subsection \<open>The node: mempool, peers, messages\<close>

text \<open>
  Modelled from the spec: \<^verbatim>\<open>TxPool\<close> is missing. Section 4.2 of the spec: the pool is a set
  keyed by transaction hash that keeps insertion order; \<^verbatim>\<open>Add\<close> inserts unless the hash
  is present, \<^verbatim>\<open>Pending\<close> is a snapshot in insertion order, \<^verbatim>\<open>ClearPending\<close> empties
  the set. The spec leaves the behaviour at capacity open, and so the pool here has none.
\<close>

type_synonym TxPool = "Transaction list"

definition Contains :: "TxPool \<Rightarrow> Hash \<Rightarrow> bool" where
  "Contains pool hash = (hash \<in> set (map txHash pool))"

definition Add :: "TxPool \<Rightarrow> Transaction \<Rightarrow> TxPool" where
  "Add pool tx = (if Contains pool (txHash tx) then pool else pool @ [tx])"

definition Pending :: "TxPool \<Rightarrow> Transaction list" where
  "Pending pool = pool"

definition ClearPending :: "TxPool \<Rightarrow> TxPool" where
  "ClearPending pool = []"

text \<open>
  Modelled from the spec: the message envelope \<^verbatim>\<open>{type, senderID, payload bytes}\<close>
  (sections 3 and 6) built by the missing \<^verbatim>\<open>NewMessage\<close>, and a peer (section 4.3) whose
  \<^verbatim>\<open>Send\<close> and \<^verbatim>\<open>SendBytesPayload\<close> write one framed message to the socket or return
  the write failure. \<open>sent\<close> is what has been written to the peer's socket.
\<close>

datatype MessageType =
    MessageTypeTx | MessageTypeBlock | MessageTypeGetBlocks
  | MessageTypeStatus | MessageTypeGetStatus | MessageTypeBlocks

record Message =
  msgType :: MessageType
  msgData :: bytes
  msgID :: string

definition NewMessage :: "MessageType \<Rightarrow> bytes \<Rightarrow> string \<Rightarrow> Message" where
  "NewMessage t data sender = \<lparr>msgType = t, msgData = data, msgID = sender\<rparr>"

record TCPPeer =
  sent :: "Message list"
  writeFailure :: "error option"

definition Send :: "TCPPeer \<Rightarrow> Message \<Rightarrow> error option \<times> TCPPeer" where
  "Send peer msg =
     (case writeFailure peer of
        Some e \<Rightarrow> (Some e, peer)
      | None \<Rightarrow> (None, peer\<lparr>sent := sent peer @ [msg]\<rparr>))"

record FullBlock =
  fbBlock :: Block
  fbHeader :: "Header option"

text \<open>
  The message bodies (\<open>gbFrom\<close> and \<open>gbTo\<close> are the fields \<^verbatim>\<open>From\<close> and \<^verbatim>\<open>To\<close> of
  \<^verbatim>\<open>GetBlocksMessage\<close>, \<open>stID\<close> the \<^verbatim>\<open>ID\<close> of \<^verbatim>\<open>StatusMessage\<close>) and the values handed to
  \<^verbatim>\<open>gob.NewEncoder(buf).Encode\<close>; the encoder is the parameter \<open>gobEncode\<close>.
\<close>

record GetBlocksMessage =
  gbFrom :: "64 word"
  gbTo :: "64 word"

record BlocksMessage =
  Blocks :: "FullBlock list"

record StatusMessage =
  CurrentLength :: int
  stID :: string

datatype GobValue =
    GobGetBlocks GetBlocksMessage
  | GobBlocks BlocksMessage
  | GobStatus StatusMessage

type_synonym Addr = string

text \<open>
  \<open>started\<close> lists the catch-up loops started with \<^verbatim>\<open>go s.requestBlocksLoop(from, n)\<close>.
  A goroutine that runs without waiting for anything but a mutex (\<^verbatim>\<open>broadcastTx\<close>,
  \<^verbatim>\<open>broadcastBlock\<close>) is run where it is started; what it returns is dropped, as Go
  drops it.
\<close>

record Server =
  ID :: string
  peerMap :: "Addr \<Rightarrow> TCPPeer option"
  mu :: RWMutex
  memPool :: TxPool
  chain :: Blockchain
  isValidator :: bool
  PrivateKey :: "bytes option"
  started :: "(Addr \<times> int) list"

definition broadcast :: "Server \<Rightarrow> Message \<Rightarrow> error option outcome \<times> Server" where
  "broadcast s payload =
     (case RLock (mu s) of
        None \<Rightarrow> (Hangs, s)
      | Some m \<Rightarrow>
         (let s1 = s\<lparr>mu := m\<rparr>;
              s2 = s1\<lparr>peerMap := (\<lambda>netAddr. map_option (\<lambda>peer. snd (Send peer payload)) (peerMap s1 netAddr))\<rparr>
          in (Returns None, s2\<lparr>mu := RUnlock (mu s2)\<rparr>)))"

text \<open>
  Both broadcast functions build the message from a fresh, empty buffer: the lines that
  would encode the transaction or the block into it are commented out in the source.
  \<^verbatim>\<open>broadcastBlock\<close> holds the write lock of \<^verbatim>\<open>s.mu\<close> while it calls \<^verbatim>\<open>broadcast\<close>.
\<close>

definition broadcastTx :: "Server \<Rightarrow> Transaction \<Rightarrow> error option outcome \<times> Server" where
  "broadcastTx s tx =
     (let buf = [];
          msg = NewMessage MessageTypeTx buf (ID s)
      in broadcast s msg)"

definition broadcastBlock :: "Server \<Rightarrow> Block \<Rightarrow> error option outcome \<times> Server" where
  "broadcastBlock s b =
     (let buf = [] in
      case Lock (mu s) of
        None \<Rightarrow> (Hangs, s)
      | Some m \<Rightarrow>
         (let s1 = s\<lparr>mu := m\<rparr>;
              msg = NewMessage MessageTypeBlock buf (ID s1)
          in case broadcast s1 msg of
               (Hangs, s2) \<Rightarrow> (Hangs, s2)
             | (r, s2) \<Rightarrow> (r, s2\<lparr>mu := Unlock (mu s2)\<rparr>)))"

definition processTransaction :: "Server \<Rightarrow> Transaction \<Rightarrow> error option outcome \<times> Server" where
  "processTransaction s tx =
     (let hash = txHash tx in
      if Contains (memPool s) hash then (Returns None, s)
      else
        (let s1 = snd (broadcastTx s tx)
         in (Returns None, s1\<lparr>memPool := Add (memPool s1) tx\<rparr>)))"

subsection \<open>Serving and requesting blocks\<close>

text \<open>
  The loop of \<^verbatim>\<open>processGetBlocksMessage\<close> over the heights \<^verbatim>\<open>int(data.To)\<close> to
  \<^verbatim>\<open>int(data.From)\<close>: the first \<^verbatim>\<open>GetBlock\<close> that fails ends the handler with its error.
\<close>

fun collectBlocks ::
    "(Header \<Rightarrow> Hash) \<Rightarrow> Blockchain \<Rightarrow> int list \<Rightarrow> FullBlock list \<Rightarrow>
     (error + FullBlock list) outcome \<times> Blockchain" where
  "collectBlocks hh bc [] fullBlocks = (Returns (Inr fullBlocks), bc)"
| "collectBlocks hh bc (i # rest) fullBlocks =
     (case GetBlock hh bc i of
        (Hangs, bc') \<Rightarrow> (Hangs, bc')
      | (Panics p, bc') \<Rightarrow> (Panics p, bc')
      | (Returns (Inl err), bc') \<Rightarrow> (Returns (Inl err), bc')
      | (Returns (Inr block), bc') \<Rightarrow>
         collectBlocks hh bc' rest (fullBlocks @ [\<lparr>fbBlock = block, fbHeader = header block\<rparr>]))"

definition processGetBlocksMessage ::
    "(GobValue \<Rightarrow> error + bytes) \<Rightarrow> (Header \<Rightarrow> Hash) \<Rightarrow> Server \<Rightarrow> Addr \<Rightarrow> GetBlocksMessage \<Rightarrow>
     error option outcome \<times> Server" where
  "processGetBlocksMessage gobEncode hh s from_addr data =
     (let ourHeadersLength = (of_nat (length (Headers (chain s))) :: 64 word) in
      case (if gbFrom data \<le> ourHeadersLength \<and> gbTo data \<le> ourHeadersLength
            then collectBlocks hh (chain s) [sint (gbTo data) .. sint (gbFrom data)] []
            else (Returns (Inr []), chain s)) of
        (Hangs, c) \<Rightarrow> (Hangs, s\<lparr>chain := c\<rparr>)
      | (Panics p, c) \<Rightarrow> (Panics p, s\<lparr>chain := c\<rparr>)
      | (Returns (Inl err), c) \<Rightarrow> (Returns (Some err), s\<lparr>chain := c\<rparr>)
      | (Returns (Inr fullBlocks), c) \<Rightarrow>
         (let s1 = s\<lparr>chain := c\<rparr> in
          case gobEncode (GobBlocks \<lparr>Blocks = fullBlocks\<rparr>) of
            Inl err \<Rightarrow> (Returns (Some err), s1)
          | Inr buf \<Rightarrow>
             (let msg = NewMessage MessageTypeBlocks buf (ID s1) in
              case peerMap s1 from_addr of
                None \<Rightarrow> (Returns (Some PeerNotFound), s1)
              | Some peer \<Rightarrow>
                 (let (err, peer') = Send peer msg
                  in (Returns err, s1\<lparr>peerMap := (peerMap s1)(from_addr \<mapsto> peer')\<rparr>)))))"

definition processStatusMessage ::
    "Server \<Rightarrow> Addr \<Rightarrow> StatusMessage \<Rightarrow> error option outcome \<times> Server" where
  "processStatusMessage s from_addr data =
     (let myHeadersLength = int (length (Headers (chain s))) in
      if CurrentLength data < myHeadersLength then (Returns None, s)
      else if \<not> isValidator s \<and> myHeadersLength < CurrentLength data
      then (Returns None, s\<lparr>started := started s @ [(from_addr, CurrentLength data)]\<rparr>)
      else (Returns None, s))"

text \<open>
  \<^verbatim>\<open>requestBlocksLoop\<close> waits on one ticker, made once with a period of six seconds. The
  list \<open>ticks\<close> has one entry for each time the ticker fires while the loop is watched: what
  the rest of the node did to the server in the meantime. The result is \<open>None\<close> when the
  loop is still waiting after the last of them. Every pass takes the read lock of
  \<^verbatim>\<open>s.mu\<close> and defers its release to the return of the function; \<open>deferred\<close> counts the
  releases due. The lookup of a peer that is not registered yields a nil \<^verbatim>\<open>*TCPPeer\<close>,
  which the error message dereferences; the deferred releases, that of the pass included,
  run while the function panics.
\<close>

definition runDeferred :: "nat \<Rightarrow> Server \<Rightarrow> Server" where
  "runDeferred n s = s\<lparr>mu := (RUnlock ^^ n) (mu s)\<rparr>"

fun requestBlocksLoop ::
    "(GobValue \<Rightarrow> error + bytes) \<Rightarrow> Addr \<Rightarrow> int \<Rightarrow> (Server \<Rightarrow> Server) list \<Rightarrow> nat \<Rightarrow> Server \<Rightarrow>
     error option outcome option \<times> Server" where
  "requestBlocksLoop gobEncode peer blocksIndex ticks deferred s =
     (let headersLength = length (Headers (chain s)) in
      if blocksIndex \<le> int headersLength then (Some (Returns None), runDeferred deferred s)
      else
        (case gobEncode (GobGetBlocks \<lparr>gbFrom = uint64 blocksIndex, gbTo = of_nat headersLength\<rparr>) of
           Inl err \<Rightarrow> (Some (Returns (Some err)), runDeferred deferred s)
         | Inr buf \<Rightarrow>
            (case RLock (mu s) of
               None \<Rightarrow> (Some Hangs, s)
             | Some m \<Rightarrow>
                (let s1 = s\<lparr>mu := m\<rparr>;
                     msg = NewMessage MessageTypeGetBlocks buf (ID s1)
                 in case peerMap s1 peer of
                      None \<Rightarrow> (Some (Panics NilDereference), runDeferred (Suc deferred) s1)
                    | Some p \<Rightarrow>
                       (let (err, p') = Send p msg;
                            s2 = s1\<lparr>peerMap := (peerMap s1)(peer \<mapsto> p')\<rparr>
                        in case ticks of
                             [] \<Rightarrow> (None, s2)
                           | tick # rest \<Rightarrow>
                              requestBlocksLoop gobEncode peer blocksIndex rest (Suc deferred) (tick s2))))))"

declare requestBlocksLoop.simps [simp del]

subsection \<open>Block production\<close>

text \<open>
  \<^verbatim>\<open>CreateNewBlock\<close> calls \<^verbatim>\<open>s.chain.GetHeader\<close>, \<^verbatim>\<open>types.NewBlockFromPrevHeader\<close> and
  \<^verbatim>\<open>block.Sign\<close>, none of which is in the files at hand: they are the parameters
  \<open>GetHeader\<close>, \<open>NewBlockFromPrevHeader\<close> and \<open>Sign\<close> (which returns the signed block).
  \<^verbatim>\<open>*s.PrivateKey\<close> is a pointer dereference.
\<close>

definition CreateNewBlock ::
    "(Blockchain \<Rightarrow> int \<Rightarrow> error + Header) \<Rightarrow> (Header \<Rightarrow> Transaction list \<Rightarrow> error + Block) \<Rightarrow>
     (Block \<Rightarrow> bytes \<Rightarrow> error + Block) \<Rightarrow>
     (Blockchain \<Rightarrow> Block \<Rightarrow> error option) \<Rightarrow> (Transaction \<Rightarrow> error option) \<Rightarrow> (Header \<Rightarrow> Hash) \<Rightarrow>
     Server \<Rightarrow> error option outcome \<times> Server" where
  "CreateNewBlock GetHeader NewBlockFromPrevHeader Sign ValidateBlock Verify hh s =
     (case Height (chain s) of
        Hangs \<Rightarrow> (Hangs, s)
      | Panics p \<Rightarrow> (Panics p, s)
      | Returns height \<Rightarrow>
         (case GetHeader (chain s) height of
            Inl err \<Rightarrow> (Returns (Some err), s)
          | Inr currentHeader \<Rightarrow>
             (let txx = Pending (memPool s) in
              case NewBlockFromPrevHeader currentHeader txx of
                Inl err \<Rightarrow> (Returns (Some err), s)
              | Inr block \<Rightarrow>
                 (case PrivateKey s of
                    None \<Rightarrow> (Panics NilDereference, s)
                  | Some key \<Rightarrow>
                     (case Sign block key of
                        Inl err \<Rightarrow> (Returns (Some err), s)
                      | Inr signedBlock \<Rightarrow>
                         (case VerifyBlock ValidateBlock Verify hh (chain s) (Some signedBlock) of
                            (Hangs, c) \<Rightarrow> (Hangs, s\<lparr>chain := c\<rparr>)
                          | (Panics p, c) \<Rightarrow> (Panics p, s\<lparr>chain := c\<rparr>)
                          | (Returns (Some err), c) \<Rightarrow> (Returns (Some err), s\<lparr>chain := c\<rparr>)
                          | (Returns None, c) \<Rightarrow>
                             (let s1 = s\<lparr>chain := c\<rparr>;
                                  s2 = s1\<lparr>memPool := ClearPending (memPool s1)\<rparr>;
                                  s3 = snd (broadcastBlock s2 signedBlock)
                              in (Returns None, s3))))))))"

subsection \<open>Concrete values\<close>

text \<open>
  The values at which the theorems below are instantiated. The genesis header has the
  fields \<^verbatim>\<open>genesisBlock()\<close> of the server file sets (version 1, zero transaction root,
  height 0); the request data are those of \<^verbatim>\<open>randomRFQ\<close> in \<^verbatim>\<open>block_test.go\<close> with the
  amount of the spec's first scenario.
\<close>

definition sample_header :: Header where
  "sample_header = \<lparr>Version = 1, ParentHash = 0, TxHash = 0, hdrHeight = 0,
     Timestamp = 1700000000, BlockSignature = Some [1, 2, 3]\<rparr>"

definition sample_genesis :: Block where
  "sample_genesis = \<lparr>header = Some sample_header, transactions = [], Validator = Some [4, 5]\<rparr>"

definition sample_database :: Database where
  "sample_database = \<lparr>blocks = Map.empty, table = (\<lambda>name. empty_table)\<rparr>"

definition sample_data :: SignableData where
  "sample_data = \<lparr>RequestorId = ''119'', BaseTokenAmount = 1000000000000000000,
     BaseToken = \<lparr>Address = 0xA0b86991c6218b36c1d19D4a2e9Eb0cE3606eB48, Symbol = ''VFG'', Decimals = 18\<rparr>,
     QuoteToken = \<lparr>Address = 0xA0b86991c6218b36c1d19D4a2e9Eb0cE3606eB48, Symbol = ''USDC'', Decimals = 6\<rparr>,
     RFQDurationMs = 60000\<rparr>"

definition sample_tx :: Transaction where
  "sample_tx = \<lparr>txType = 0, txHash = 0x1234, txReferenceTxHash = 0, txData = [7, 7],
     txFrom = Some 0x0a648918E6039C8b84864Ff0Aa287B5455cF8aE7, txRFQData = sample_data,
     txV = Some 27, txR = Some 11, txS = Some 13\<rparr>"

definition sample_chain :: Blockchain where
  "sample_chain = \<lparr>db = Map.empty, lock = unlocked, headers = [],
     rfqRequestsTable = empty_table, openRFQSTable = empty_table, closedRFQSTable = empty_table,
     matchedRFQSTable = empty_table, settledRFQSTable = empty_table, quotesTable = empty_table,
     genesisBlock = None, validator = False, currentBlock = None\<rparr>"

text \<open>
  A hash function, the six type tags numbered from the request tag 0 (the value the API
  test expects of a request), an encoder that writes a request as the bytes of its
  requestor id, and the ledger \<^verbatim>\<open>NewBlockchain\<close> builds for a
  validator from the genesis block above.
\<close>

definition sample_hash :: "Header \<Rightarrow> Hash" where
  "sample_hash h = 0xAB00 + word_of_int (hdrHeight h)"

definition sample_types :: TxTypes where
  "sample_types = \<lparr>RFQRequestTxType = 0, OpenRFQTxType = 1, ClosedRFQTxType = 2,
     MatchedRFQTxType = 3, SettledRFQTxType = 4, QuoteTxType = 5\<rparr>"

definition sample_request :: RFQRequest where
  "sample_request = \<lparr>From = 0x0a648918E6039C8b84864Ff0Aa287B5455cF8aE7, Data = sample_data,
     V = Some 27, R = Some 11, S = Some 13\<rparr>"

definition sample_encode :: "RFQRequest \<Rightarrow> error + bytes" where
  "sample_encode r = Inr (map (\<lambda>c. of_nat (of_char c)) (RequestorId (Data r)))"

definition genesis_chain :: Blockchain where
  "genesis_chain = sample_chain\<lparr>db := [(0xAB00, 0) \<mapsto> sample_genesis], headers := [sample_header],
     genesisBlock := Some sample_genesis, validator := True\<rparr>"

definition sample_block1 :: Block where
  "sample_block1 = \<lparr>header = Some (sample_header\<lparr>ParentHash := 0xAB00, hdrHeight := 1\<rparr>),
     transactions = [sample_tx], Validator = Some [4, 5]\<rparr>"

text \<open>
  Two nodes: a validator with the ledger above, one registered peer and free mutexes, and
  a follower with an empty ledger whose one peer is the validator. \<open>sample_gob\<close> is an
  encoder that never fails, \<open>sample_verify\<close> a signature check that rejects a transaction
  without signature values, and the three functions after it stand for the missing
  \<^verbatim>\<open>GetHeader\<close>, \<^verbatim>\<open>NewBlockFromPrevHeader\<close> and \<^verbatim>\<open>Sign\<close>.
\<close>

definition sample_peer :: TCPPeer where
  "sample_peer = \<lparr>sent = [], writeFailure = None\<rparr>"

definition sample_gob :: "GobValue \<Rightarrow> error + bytes" where
  "sample_gob v =
     (case v of
        GobGetBlocks m \<Rightarrow> Inr [1, ucast (gbFrom m), ucast (gbTo m)]
      | GobBlocks m \<Rightarrow> Inr [2, of_nat (length (Blocks m))]
      | GobStatus m \<Rightarrow> Inr [3, word_of_int (CurrentLength m)])"

definition sample_server :: Server where
  "sample_server = \<lparr>ID = ''validator'', peerMap = [''10.0.0.2:3000'' \<mapsto> sample_peer],
     mu = unlocked, memPool = [], chain = genesis_chain, isValidator = True,
     PrivateKey = Some [9, 9], started = []\<rparr>"

definition sample_verify :: "Transaction \<Rightarrow> error option" where
  "sample_verify tx = (if txV tx = None \<or> txR tx = None \<or> txS tx = None
                       then Some (External ''invalid signature'') else None)"

definition unsigned_tx :: Transaction where
  "unsigned_tx = sample_tx\<lparr>txHash := 0x5678, txV := None, txR := None, txS := None\<rparr>"

definition sample_GetHeader :: "Blockchain \<Rightarrow> int \<Rightarrow> error + Header" where
  "sample_GetHeader bc height =
     (case GetBlockHeader bc height of
        Returns r \<Rightarrow> r
      | Panics p \<Rightarrow> Inl (External ''header not found'')
      | Hangs \<Rightarrow> Inl (External ''header not found''))"

definition sample_NewBlockFromPrevHeader :: "Header \<Rightarrow> Transaction list \<Rightarrow> error + Block" where
  "sample_NewBlockFromPrevHeader prev txx =
     Inr \<lparr>header = Some (prev\<lparr>ParentHash := sample_hash prev, hdrHeight := hdrHeight prev + 1,
                              BlockSignature := None\<rparr>),
          transactions = txx, Validator = None\<rparr>"

definition sample_Sign :: "Block \<Rightarrow> bytes \<Rightarrow> error + Block" where
  "sample_Sign b key =
     Inr (b\<lparr>header := map_option (\<lambda>h. h\<lparr>BlockSignature := Some key\<rparr>) (header b),
            Validator := Some key\<rparr>)"

definition sample_follower :: Server where
  "sample_follower = \<lparr>ID = ''follower'', peerMap = [''10.0.0.1:3000'' \<mapsto> sample_peer],
     mu = unlocked, memPool = [], chain = sample_chain, isValidator = False,
     PrivateKey = None, started = []\<rparr>"

definition follower_chain :: Blockchain where
  "follower_chain = genesis_chain\<lparr>validator := False, currentBlock := Some sample_header\<rparr>"

section \<open>Properties\<close>

subsection \<open>Mutexes and the transaction check\<close>

lemma RUnlock_RLock: "RLock m = Some m' \<Longrightarrow> RUnlock m' = m"
  by (auto simp: RLock_def RUnlock_def split: if_splits)

lemma Unlock_Lock: "Lock m = Some m' \<Longrightarrow> Unlock m' = m"
  by (auto simp: Lock_def Unlock_def split: if_splits)

lemma verifyTransactions_None:
  "verifyTransactions Verify txs = None \<longleftrightarrow> (\<forall>tx \<in> set txs. Verify tx = None)"
  by (induction txs) (auto split: option.splits)

subsection \<open>Committing a block\<close>

lemma addBlockWithoutValidation_Returns:
  "addBlockWithoutValidation hh bc b = (Returns r, bc') \<Longrightarrow>
     r = None \<and> (\<exists>h. header b = Some h \<and> lock bc = unlocked \<and>
       bc' = bc\<lparr>headers := headers bc @ [h], db := WriteBlock hh (db bc) b h,
                 currentBlock := Some h,
                 genesisBlock := (if headers bc = [] then Some b else genesisBlock bc)\<rparr>)"
  by (auto simp: addBlockWithoutValidation_def Let_def Lock_def Unlock_def unlocked_def
      split: option.splits if_splits)

lemma VerifyBlock_error_keeps:
  "fst (VerifyBlock ValidateBlock Verify hh bc b) \<noteq> Returns None \<Longrightarrow>
     snd (VerifyBlock ValidateBlock Verify hh bc b) = bc"
  by (auto simp: VerifyBlock_def addBlockWithoutValidation_def Let_def split: option.splits if_splits)

lemma VerifyBlock_success:
  assumes "VerifyBlock ValidateBlock Verify hh bc b = (Returns None, bc')"
  shows "\<exists>blk h. b = Some blk \<and> header blk = Some h \<and>
           (validator bc \<longrightarrow> ValidateBlock bc blk = None) \<and>
           (\<forall>tx \<in> set (transactions blk). Verify tx = None) \<and>
           lock bc = unlocked \<and>
           bc' = bc\<lparr>headers := headers bc @ [h], db := WriteBlock hh (db bc) blk h,
                 currentBlock := Some h,
                 genesisBlock := (if headers bc = [] then Some blk else genesisBlock bc)\<rparr>"
proof -
  from assms obtain blk h where b: "b = Some blk" and h: "header blk = Some h"
    and vb: "(if validator bc then ValidateBlock bc blk else None) = None"
    and vt: "verifyTransactions Verify (transactions blk) = None"
    and add: "addBlockWithoutValidation hh bc blk = (Returns None, bc')"
    by (auto simp: VerifyBlock_def split: option.splits)
  from addBlockWithoutValidation_Returns[OF add] h have
    "lock bc = unlocked \<and>
     bc' = bc\<lparr>headers := headers bc @ [h], db := WriteBlock hh (db bc) blk h,
                 currentBlock := Some h,
                 genesisBlock := (if headers bc = [] then Some blk else genesisBlock bc)\<rparr>"
    by auto
  with b h vb vt show ?thesis
    by (auto simp: verifyTransactions_None split: if_splits)
qed

text \<open>
  C1. \<^verbatim>\<open>VerifyBlock\<close> returns an error for a nil block, for a block with a nil header,
  when the validator that is set rejects the block, and when a transaction does not
  verify; whenever it does not return nil the ledger is as it was (no header appended, same
  height, same head pointer). When it returns nil, the block's header has been appended,
  the height has grown by one, the block can be read back from the store and the head
  pointer is the new header. A block that passes every check on a ledger whose lock is
  free is committed.
\<close>

theorem VerifyBlock_rejects_whole_or_commits:
  "VerifyBlock ValidateBlock Verify hh bc None = (Returns (Some MalformedBlockIsNil), bc)
   \<and> (header blk = None \<longrightarrow>
        VerifyBlock ValidateBlock Verify hh bc (Some blk) = (Returns (Some MalformedBlockHeaderIsNil), bc))
   \<and> (header blk \<noteq> None \<and> validator bc \<and> ValidateBlock bc blk = Some e \<longrightarrow>
        VerifyBlock ValidateBlock Verify hh bc (Some blk) = (Returns (Some e), bc))
   \<and> (header blk \<noteq> None \<and> (\<exists>tx \<in> set (transactions blk). Verify tx \<noteq> None) \<longrightarrow>
        (\<exists>e'. VerifyBlock ValidateBlock Verify hh bc (Some blk) = (Returns (Some e'), bc)))
   \<and> (fst (VerifyBlock ValidateBlock Verify hh bc b) \<noteq> Returns None \<longrightarrow>
        snd (VerifyBlock ValidateBlock Verify hh bc b) = bc)
   \<and> (VerifyBlock ValidateBlock Verify hh bc b = (Returns None, bc') \<longrightarrow>
        (\<exists>blk' h. b = Some blk' \<and> header blk' = Some h
           \<and> headers bc' = headers bc @ [h]
           \<and> Height bc' = Returns (int (length (headers bc)))
           \<and> ReadBlock (db bc') (hh h) (Uint64 (hdrHeight h)) = Some blk'
           \<and> CurrentBlock bc' = Some h))
   \<and> (header blk \<noteq> None \<and> (validator bc \<longrightarrow> ValidateBlock bc blk = None)
        \<and> (\<forall>tx \<in> set (transactions blk). Verify tx = None) \<and> lock bc = unlocked \<longrightarrow>
        fst (VerifyBlock ValidateBlock Verify hh bc (Some blk)) = Returns None)"
proof (intro conjI impI)
  show "VerifyBlock ValidateBlock Verify hh bc None = (Returns (Some MalformedBlockIsNil), bc)"
    by (simp add: VerifyBlock_def)
next
  assume "header blk = None"
  then show "VerifyBlock ValidateBlock Verify hh bc (Some blk)
               = (Returns (Some MalformedBlockHeaderIsNil), bc)"
    by (simp add: VerifyBlock_def)
next
  assume "header blk \<noteq> None \<and> validator bc \<and> ValidateBlock bc blk = Some e"
  then show "VerifyBlock ValidateBlock Verify hh bc (Some blk) = (Returns (Some e), bc)"
    by (auto simp: VerifyBlock_def)
next
  assume a: "header blk \<noteq> None \<and> (\<exists>tx \<in> set (transactions blk). Verify tx \<noteq> None)"
  then have "verifyTransactions Verify (transactions blk) \<noteq> None"
    by (simp add: verifyTransactions_None)
  with a show "\<exists>e'. VerifyBlock ValidateBlock Verify hh bc (Some blk) = (Returns (Some e'), bc)"
    by (auto simp: VerifyBlock_def split: option.splits)
next
  assume "fst (VerifyBlock ValidateBlock Verify hh bc b) \<noteq> Returns None"
  then show "snd (VerifyBlock ValidateBlock Verify hh bc b) = bc"
    by (rule VerifyBlock_error_keeps)
next
  assume "VerifyBlock ValidateBlock Verify hh bc b = (Returns None, bc')"
  from VerifyBlock_success[OF this] obtain blk' h where
    "b = Some blk'" "header blk' = Some h"
    "bc' = bc\<lparr>headers := headers bc @ [h], db := WriteBlock hh (db bc) blk' h,
                 currentBlock := Some h,
                 genesisBlock := (if headers bc = [] then Some blk' else genesisBlock bc)\<rparr>"
    and "lock bc = unlocked"
    by blast
  then show "\<exists>blk' h. b = Some blk' \<and> header blk' = Some h
           \<and> headers bc' = headers bc @ [h]
           \<and> Height bc' = Returns (int (length (headers bc)))
           \<and> ReadBlock (db bc') (hh h) (Uint64 (hdrHeight h)) = Some blk'
           \<and> CurrentBlock bc' = Some h"
    by (simp add: Height_def RLock_def unlocked_def WriteBlock_def ReadBlock_def CurrentBlock_def)
next
  assume a: "header blk \<noteq> None \<and> (validator bc \<longrightarrow> ValidateBlock bc blk = None)
        \<and> (\<forall>tx \<in> set (transactions blk). Verify tx = None) \<and> lock bc = unlocked"
  then have "verifyTransactions Verify (transactions blk) = None"
    by (simp add: verifyTransactions_None)
  with a show "fst (VerifyBlock ValidateBlock Verify hh bc (Some blk)) = Returns None"
    by (auto simp: VerifyBlock_def addBlockWithoutValidation_def Lock_def unlocked_def Let_def
        split: option.splits)
qed

theorem VerifyBlock_rejects_whole_or_commits_witness:
  "header sample_genesis \<noteq> None
   \<and> lock sample_chain = unlocked
   \<and> fst (VerifyBlock (\<lambda>bc b. None) (\<lambda>tx. None) (\<lambda>h. 5) sample_chain (Some sample_genesis))
        = Returns None
   \<and> headers (snd (VerifyBlock (\<lambda>bc b. None) (\<lambda>tx. None) (\<lambda>h. 5) sample_chain (Some sample_genesis)))
        = [sample_header]
   \<and> CurrentBlock (snd (VerifyBlock (\<lambda>bc b. None) (\<lambda>tx. None) (\<lambda>h. 5) sample_chain (Some sample_genesis)))
        = Some sample_header
   \<and> VerifyBlock (\<lambda>bc b. None) (\<lambda>tx. Some (External ''invalid signature'')) (\<lambda>h. 5) sample_chain
        (Some (sample_genesis\<lparr>transactions := [sample_tx]\<rparr>))
        = (Returns (Some (External ''invalid signature'')), sample_chain)"
  using VerifyBlock_rejects_whole_or_commits
          [where ValidateBlock = "\<lambda>bc b. None" and Verify = "\<lambda>tx. None" and hh = "\<lambda>h. 5"
             and bc = sample_chain and blk = sample_genesis and b = "Some sample_genesis"]
  by (simp add: VerifyBlock_def addBlockWithoutValidation_def Lock_def Unlock_def unlocked_def
        sample_chain_def sample_genesis_def sample_header_def CurrentBlock_def Let_def)

subsection \<open>Reading headers and blocks by height\<close>

lemma Int64_0 [simp]: "Int64 0 = 0"
  by (simp add: Int64_def)

lemma Int64_1 [simp]: "Int64 1 = 1"
  by (simp add: Int64_def)

lemma Int64_of_nat: "n < 2 ^ 63 \<Longrightarrow> Int64 (int n) = int n"
  unfolding Int64_def sint_sbintrunc'
  by (rule signed_take_bit_int_eq_self) simp_all

lemma GetBlock_above_height:
  "Height bc = Returns c \<Longrightarrow> c < height \<Longrightarrow>
     GetBlock hh bc height = (Returns (Inl (HeightLessThanRequested c (Int64 height))), bc)"
  by (simp add: GetBlock_def)

lemma GetBlockHeader_above_length:
  "int (length (headers bc)) < height \<Longrightarrow>
     GetBlockHeader bc height
       = Returns (Inl (HeightLessThanRequested (int (length (headers bc))) (Int64 height)))"
  by (simp add: GetBlockHeader_def)

lemma GetBlockHeader_at_length:
  "length (headers bc) < 2 ^ 63 \<Longrightarrow>
     GetBlockHeader bc (int (length (headers bc))) = Panics IndexOutOfRange"
  by (simp add: GetBlockHeader_def Int64_of_nat)

lemma NewBlockchain_sample:
  "NewBlockchain sample_hash (Some sample_genesis) sample_database True = Returns (Inr genesis_chain)"
  by (simp add: NewBlockchain_def addBlockWithoutValidation_def GetBlock_def GetBlockHeader_def
        Height_def Lock_def Unlock_def RLock_def RUnlock_def unlocked_def Let_def NewTable_def
        sample_database_def sample_genesis_def sample_header_def sample_hash_def genesis_chain_def
        sample_chain_def WriteBlock_def ReadBlock_def Uint64_def uint64_def)

text \<open>
  C2. \<^verbatim>\<open>GetBlock\<close> compares the height with \<^verbatim>\<open>Height()\<close>, the header count minus one,
  and answers every greater height with an error, the ledger untouched
  (\<open>GetBlock_above_height\<close>). \<^verbatim>\<open>GetBlockHeader\<close> compares with the header count itself:
  a height above the count gets the error (\<open>GetBlockHeader_above_length\<close>), the height
  equal to the count passes the test and indexes the slice one past its end
  (\<open>GetBlockHeader_at_length\<close>). On the ledger of a fresh validator, which holds the
  genesis header only and has height 0, \<^verbatim>\<open>GetBlock(1)\<close> returns the error and
  \<^verbatim>\<open>GetBlockHeader(1)\<close> panics.
\<close>

theorem GetBlockHeader_one_past_last_panics:
  "NewBlockchain sample_hash (Some sample_genesis) sample_database True = Returns (Inr genesis_chain)
   \<and> length (Headers genesis_chain) = 1
   \<and> Height genesis_chain = Returns 0
   \<and> GetBlock sample_hash genesis_chain 1
        = (Returns (Inl (HeightLessThanRequested 0 1)), genesis_chain)
   \<and> GetBlockHeader genesis_chain 1 = Panics IndexOutOfRange"
proof (intro conjI)
  show "NewBlockchain sample_hash (Some sample_genesis) sample_database True
          = Returns (Inr genesis_chain)"
    by (rule NewBlockchain_sample)
  show "length (Headers genesis_chain) = 1"
    by (simp add: Headers_def genesis_chain_def sample_chain_def)
  show h: "Height genesis_chain = Returns 0"
    by (simp add: Height_def RLock_def genesis_chain_def sample_chain_def unlocked_def)
  from GetBlock_above_height[OF h, of 1 sample_hash]
  show "GetBlock sample_hash genesis_chain 1
          = (Returns (Inl (HeightLessThanRequested 0 1)), genesis_chain)"
    by simp
  show "GetBlockHeader genesis_chain 1 = Panics IndexOutOfRange"
    by (simp add: GetBlockHeader_def genesis_chain_def sample_chain_def)
qed

subsection \<open>The head pointer after construction\<close>

lemma GetBlock_currentBlock: "currentBlock (snd (GetBlock hh bc height)) = currentBlock bc"
  by (auto simp: GetBlock_def Let_def split: outcome.splits option.splits sum.splits)

lemma WriteRFQTxs_currentBlock:
  "currentBlock (snd (WriteRFQTxs T EncodeRLP bc tx)) = currentBlock bc"
  by (auto simp: WriteRFQTxs_def Let_def split: option.splits sum.splits prod.splits)

lemma NewBlockchain_validator:
  assumes "NewBlockchain hh genesis d True = Returns (Inr bc)"
  shows "\<exists>g h g'. genesis = Some g \<and> header g = Some h \<and> headers bc = [h]
           \<and> ReadBlock (db bc) (hh h) (Uint64 (hdrHeight h)) = Some g
           \<and> ReadBlock (db bc) (hh h) 0 = Some g' \<and> genesisBlock bc = Some g'
           \<and> lock bc = unlocked \<and> currentBlock bc = None \<and> validator bc"
proof -
  from assms obtain g bc2 g' bc3 where g: "genesis = Some g"
    and add: "addBlockWithoutValidation hh
                (\<lparr>db = blocks d, lock = unlocked, headers = [],
                  rfqRequestsTable = NewTable d ''rfqRequests'',
                  openRFQSTable = NewTable d ''openRFQs'',
                  closedRFQSTable = NewTable d ''closeRFQs'',
                  matchedRFQSTable = NewTable d ''matchedRFQs'',
                  settledRFQSTable = NewTable d ''settledRFQs'',
                  quotesTable = NewTable d ''quotes'',
                  genesisBlock = None, validator = False, currentBlock = None\<rparr>\<lparr>validator := True\<rparr>) g
              = (Returns None, bc2)"
    and get: "GetBlock hh bc2 0 = (Returns (Inr g'), bc3)"
    and bc: "bc = bc3\<lparr>genesisBlock := Some g', currentBlock := None\<rparr>"
    by (auto simp: NewBlockchain_def Let_def split: option.splits prod.splits outcome.splits sum.splits)
  from addBlockWithoutValidation_Returns[OF add] obtain h where h: "header g = Some h"
    and bc2: "headers bc2 = [h]" "lock bc2 = unlocked" "validator bc2"
      "db bc2 = WriteBlock hh (blocks d) g h"
    by auto
  from get bc2 have "ReadBlock (db bc2) (hh h) 0 = Some g' \<and> bc3 = bc2"
    by (auto simp: GetBlock_def Height_def GetBlockHeader_def RLock_def RUnlock_def unlocked_def
        Let_def uint64_def split: if_splits option.splits)
  with g h bc bc2 show ?thesis
    by (simp add: ReadBlock_def WriteBlock_def)
qed

text \<open>
  C9. When \<^verbatim>\<open>NewBlockchain\<close> returns a ledger for a validator node, the genesis header is
  the one header of the chain, the genesis block is in the store, the height is 0, and
  \<^verbatim>\<open>CurrentBlock()\<close> is nil. Of the ledger's operations only a \<^verbatim>\<open>VerifyBlock\<close> that
  returns nil changes the head pointer, and it leaves it non-nil; \<^verbatim>\<open>GetBlock\<close> and
  \<^verbatim>\<open>WriteRFQTxs\<close> do not touch it.
\<close>

theorem NewBlockchain_leaves_head_nil:
  "(NewBlockchain hh genesis d True = Returns (Inr bc) \<longrightarrow>
      CurrentBlock bc = None
      \<and> Height bc = Returns 0
      \<and> genesisBlock bc \<noteq> None
      \<and> (\<exists>g h. genesis = Some g \<and> header g = Some h \<and> Headers bc = [h]
            \<and> ReadBlock (db bc) (hh h) (Uint64 (hdrHeight h)) = Some g))
   \<and> (CurrentBlock (snd (VerifyBlock ValidateBlock Verify hh c b)) \<noteq> CurrentBlock c \<longrightarrow>
        fst (VerifyBlock ValidateBlock Verify hh c b) = Returns None)
   \<and> (fst (VerifyBlock ValidateBlock Verify hh c b) = Returns None \<longrightarrow>
        CurrentBlock (snd (VerifyBlock ValidateBlock Verify hh c b)) \<noteq> None)
   \<and> CurrentBlock (snd (GetBlock hh c height)) = CurrentBlock c
   \<and> CurrentBlock (snd (WriteRFQTxs T EncodeRLP c tx)) = CurrentBlock c"
proof (intro conjI impI)
  assume "NewBlockchain hh genesis d True = Returns (Inr bc)"
  from NewBlockchain_validator[OF this] obtain g h g' where
    n: "genesis = Some g" "header g = Some h" "headers bc = [h]"
       "ReadBlock (db bc) (hh h) (Uint64 (hdrHeight h)) = Some g"
       "genesisBlock bc = Some g'" "lock bc = unlocked" "currentBlock bc = None"
    by blast
  from n show "CurrentBlock bc = None"
    by (simp add: CurrentBlock_def)
  from n show "Height bc = Returns 0"
    by (simp add: Height_def RLock_def unlocked_def)
  from n show "genesisBlock bc \<noteq> None"
    by simp
  from n show "\<exists>g h. genesis = Some g \<and> header g = Some h \<and> Headers bc = [h]
            \<and> ReadBlock (db bc) (hh h) (Uint64 (hdrHeight h)) = Some g"
    by (simp add: Headers_def)
next
  assume "CurrentBlock (snd (VerifyBlock ValidateBlock Verify hh c b)) \<noteq> CurrentBlock c"
  then show "fst (VerifyBlock ValidateBlock Verify hh c b) = Returns None"
    using VerifyBlock_error_keeps[of ValidateBlock Verify hh c b] by metis
next
  assume "fst (VerifyBlock ValidateBlock Verify hh c b) = Returns None"
  then have "VerifyBlock ValidateBlock Verify hh c b
               = (Returns None, snd (VerifyBlock ValidateBlock Verify hh c b))"
    by (simp add: prod_eq_iff)
  from VerifyBlock_success[OF this]
  show "CurrentBlock (snd (VerifyBlock ValidateBlock Verify hh c b)) \<noteq> None"
    by (auto simp: CurrentBlock_def)
next
  show "CurrentBlock (snd (GetBlock hh c height)) = CurrentBlock c"
    by (simp add: CurrentBlock_def GetBlock_currentBlock)
next
  show "CurrentBlock (snd (WriteRFQTxs T EncodeRLP c tx)) = CurrentBlock c"
    by (simp add: CurrentBlock_def WriteRFQTxs_currentBlock)
qed

theorem NewBlockchain_leaves_head_nil_witness:
  "NewBlockchain sample_hash (Some sample_genesis) sample_database True = Returns (Inr genesis_chain)
   \<and> CurrentBlock genesis_chain = None
   \<and> Height genesis_chain = Returns 0
   \<and> Headers genesis_chain = [sample_header]
   \<and> fst (VerifyBlock (\<lambda>bc b. None) (\<lambda>tx. None) sample_hash genesis_chain (Some sample_block1))
        = Returns None
   \<and> CurrentBlock (snd (VerifyBlock (\<lambda>bc b. None) (\<lambda>tx. None) sample_hash genesis_chain (Some sample_block1)))
        = header sample_block1"
proof -
  note n = NewBlockchain_sample
  from NewBlockchain_leaves_head_nil
         [where hh = sample_hash and genesis = "Some sample_genesis" and d = sample_database
            and bc = genesis_chain, THEN conjunct1, THEN mp, OF n]
  have a: "CurrentBlock genesis_chain = None \<and> Height genesis_chain = Returns 0
           \<and> Headers genesis_chain = [sample_header]"
    by (simp add: sample_genesis_def)
  have v: "VerifyBlock (\<lambda>bc b. None) (\<lambda>tx. None) sample_hash genesis_chain (Some sample_block1)
             = (Returns None,
                genesis_chain\<lparr>headers := [sample_header, sample_header\<lparr>ParentHash := 0xAB00, hdrHeight := 1\<rparr>],
                  db := WriteBlock sample_hash (db genesis_chain) sample_block1
                          (sample_header\<lparr>ParentHash := 0xAB00, hdrHeight := 1\<rparr>),
                  currentBlock := Some (sample_header\<lparr>ParentHash := 0xAB00, hdrHeight := 1\<rparr>)\<rparr>)"
    by (simp add: VerifyBlock_def addBlockWithoutValidation_def Lock_def Unlock_def unlocked_def
        Let_def genesis_chain_def sample_chain_def sample_block1_def)
  from n a v show ?thesis
    by (simp add: CurrentBlock_def sample_block1_def)
qed

subsection \<open>Routing transactions into the tables\<close>

lemma map_of_put_row: "map_of (put_row k v rs) k = Some v"
  by (induction rs) auto

lemma Put_healthy:
  "failure t = None \<Longrightarrow> fst (Put t k v) = None \<and> map_of (rows (snd (Put t k v))) k = Some v"
  by (simp add: Put_def map_of_put_row)

lemma map_of_put_row_other: "k' \<noteq> k \<Longrightarrow> map_of (put_row k v rs) k' = map_of rs k'"
  by (induction rs) auto

lemma Put_failed: "failure t = Some e \<Longrightarrow> Put t k v = (Some e, t)"
  by (simp add: Put_def)

lemma WriteRFQTxs_unfold:
  assumes "lock bc = unlocked"
  shows "WriteRFQTxs T EncodeRLP bc tx =
     (if txType tx = RFQRequestTxType T then
        (case txFrom tx of
           None \<Rightarrow> (Panics NilDereference, bc)
         | Some a \<Rightarrow>
            (case EncodeRLP \<lparr>From = a, Data = txRFQData tx, V = txV tx, R = txR tx, S = txS tx\<rparr> of
               Inl err \<Rightarrow> (Returns (Some err), bc)
             | Inr enc \<Rightarrow> (Returns (kvError (fst (Put (rfqRequestsTable bc) (txHash tx) enc))),
                          bc\<lparr>rfqRequestsTable := snd (Put (rfqRequestsTable bc) (txHash tx) enc)\<rparr>)))
      else if txType tx = OpenRFQTxType T then
        (Returns (kvError (fst (Put (openRFQSTable bc) (txReferenceTxHash tx) (txData tx)))),
         bc\<lparr>openRFQSTable := snd (Put (openRFQSTable bc) (txReferenceTxHash tx) (txData tx))\<rparr>)
      else if txType tx = ClosedRFQTxType T then
        (Returns (kvError (fst (Put (closedRFQSTable bc) (txReferenceTxHash tx) (txData tx)))),
         bc\<lparr>closedRFQSTable := snd (Put (closedRFQSTable bc) (txReferenceTxHash tx) (txData tx))\<rparr>)
      else if txType tx = MatchedRFQTxType T then
        (Returns (kvError (fst (Put (matchedRFQSTable bc) (txReferenceTxHash tx) (txData tx)))),
         bc\<lparr>matchedRFQSTable := snd (Put (matchedRFQSTable bc) (txReferenceTxHash tx) (txData tx))\<rparr>)
      else if txType tx = SettledRFQTxType T then
        (Returns (kvError (fst (Put (settledRFQSTable bc) (txReferenceTxHash tx) (txData tx)))),
         bc\<lparr>settledRFQSTable := snd (Put (settledRFQSTable bc) (txReferenceTxHash tx) (txData tx))\<rparr>)
      else if txType tx = QuoteTxType T then
        (Returns (kvError (fst (Put (quotesTable bc) (txReferenceTxHash tx) (txData tx)))),
         bc\<lparr>quotesTable := snd (Put (quotesTable bc) (txReferenceTxHash tx) (txData tx))\<rparr>)
      else (Returns (Some (UnknownTransactionType (txType tx))), bc))"
proof -
  have l: "Lock (lock bc) = Some (lock bc\<lparr>writer := True\<rparr>)"
    using assms by (simp add: Lock_def unlocked_def)
  have u: "Unlock (lock bc\<lparr>writer := True\<rparr>) = lock bc"
    using assms by (simp add: Unlock_def unlocked_def)
  show ?thesis
    unfolding WriteRFQTxs_def l
    by (simp add: Let_def case_prod_beta u split: option.splits sum.splits)
qed

text \<open>
  C3. On a ledger whose lock is free, and with six different type tags:
  a request transaction (whose sender is set and whose request encodes) is put into the
  request table under the transaction's own hash; an open, closed, matched, settled or
  quote transaction is put into its own table under its \<^verbatim>\<open>ReferenceTxHash\<close>, with
  \<^verbatim>\<open>tx.Data()\<close> as the value; in each case no other field of the ledger changes. A
  transaction with any other tag gets the unknown-transaction-type error and the ledger is
  as it was. A \<open>Put\<close> into a table that has not failed returns nil and the key then reads
  the value.
\<close>

theorem WriteRFQTxs_routes_by_type:
  "distinct [RFQRequestTxType T, OpenRFQTxType T, ClosedRFQTxType T,
             MatchedRFQTxType T, SettledRFQTxType T, QuoteTxType T] \<and> lock bc = unlocked \<longrightarrow>
   (txType tx = RFQRequestTxType T \<and> txFrom tx = Some a
      \<and> EncodeRLP \<lparr>From = a, Data = txRFQData tx, V = txV tx, R = txR tx, S = txS tx\<rparr> = Inr enc \<longrightarrow>
        WriteRFQTxs T EncodeRLP bc tx
          = (Returns (kvError (fst (Put (rfqRequestsTable bc) (txHash tx) enc))),
             bc\<lparr>rfqRequestsTable := snd (Put (rfqRequestsTable bc) (txHash tx) enc)\<rparr>))
   \<and> (txType tx = OpenRFQTxType T \<longrightarrow>
        WriteRFQTxs T EncodeRLP bc tx
          = (Returns (kvError (fst (Put (openRFQSTable bc) (txReferenceTxHash tx) (txData tx)))),
             bc\<lparr>openRFQSTable := snd (Put (openRFQSTable bc) (txReferenceTxHash tx) (txData tx))\<rparr>))
   \<and> (txType tx = ClosedRFQTxType T \<longrightarrow>
        WriteRFQTxs T EncodeRLP bc tx
          = (Returns (kvError (fst (Put (closedRFQSTable bc) (txReferenceTxHash tx) (txData tx)))),
             bc\<lparr>closedRFQSTable := snd (Put (closedRFQSTable bc) (txReferenceTxHash tx) (txData tx))\<rparr>))
   \<and> (txType tx = MatchedRFQTxType T \<longrightarrow>
        WriteRFQTxs T EncodeRLP bc tx
          = (Returns (kvError (fst (Put (matchedRFQSTable bc) (txReferenceTxHash tx) (txData tx)))),
             bc\<lparr>matchedRFQSTable := snd (Put (matchedRFQSTable bc) (txReferenceTxHash tx) (txData tx))\<rparr>))
   \<and> (txType tx = SettledRFQTxType T \<longrightarrow>
        WriteRFQTxs T EncodeRLP bc tx
          = (Returns (kvError (fst (Put (settledRFQSTable bc) (txReferenceTxHash tx) (txData tx)))),
             bc\<lparr>settledRFQSTable := snd (Put (settledRFQSTable bc) (txReferenceTxHash tx) (txData tx))\<rparr>))
   \<and> (txType tx = QuoteTxType T \<longrightarrow>
        WriteRFQTxs T EncodeRLP bc tx
          = (Returns (kvError (fst (Put (quotesTable bc) (txReferenceTxHash tx) (txData tx)))),
             bc\<lparr>quotesTable := snd (Put (quotesTable bc) (txReferenceTxHash tx) (txData tx))\<rparr>))
   \<and> (txType tx \<notin> set [RFQRequestTxType T, OpenRFQTxType T, ClosedRFQTxType T,
                         MatchedRFQTxType T, SettledRFQTxType T, QuoteTxType T] \<longrightarrow>
        WriteRFQTxs T EncodeRLP bc tx = (Returns (Some (UnknownTransactionType (txType tx))), bc))
   \<and> (failure t = None \<longrightarrow>
        fst (Put t k v) = None \<and> map_of (rows (snd (Put t k v))) k = Some v)"
proof (intro impI, elim conjE, intro conjI impI)
  assume d: "distinct [RFQRequestTxType T, OpenRFQTxType T, ClosedRFQTxType T,
             MatchedRFQTxType T, SettledRFQTxType T, QuoteTxType T]"
    and l: "lock bc = unlocked"
  note u = WriteRFQTxs_unfold[OF l, of T EncodeRLP tx]
  {
    assume "txType tx = RFQRequestTxType T \<and> txFrom tx = Some a
      \<and> EncodeRLP \<lparr>From = a, Data = txRFQData tx, V = txV tx, R = txR tx, S = txS tx\<rparr> = Inr enc"
    then show "WriteRFQTxs T EncodeRLP bc tx
          = (Returns (kvError (fst (Put (rfqRequestsTable bc) (txHash tx) enc))),
             bc\<lparr>rfqRequestsTable := snd (Put (rfqRequestsTable bc) (txHash tx) enc)\<rparr>)"
      by (simp add: u)
  }
  {
    assume t: "txType tx = OpenRFQTxType T"
    with d have "txType tx \<noteq> RFQRequestTxType T"
      by auto
    with t show "WriteRFQTxs T EncodeRLP bc tx
          = (Returns (kvError (fst (Put (openRFQSTable bc) (txReferenceTxHash tx) (txData tx)))),
             bc\<lparr>openRFQSTable := snd (Put (openRFQSTable bc) (txReferenceTxHash tx) (txData tx))\<rparr>)"
      by (simp add: u)
  }
  {
    assume t: "txType tx = ClosedRFQTxType T"
    with d have "txType tx \<noteq> RFQRequestTxType T" "txType tx \<noteq> OpenRFQTxType T"
      by auto
    with t show "WriteRFQTxs T EncodeRLP bc tx
          = (Returns (kvError (fst (Put (closedRFQSTable bc) (txReferenceTxHash tx) (txData tx)))),
             bc\<lparr>closedRFQSTable := snd (Put (closedRFQSTable bc) (txReferenceTxHash tx) (txData tx))\<rparr>)"
      by (simp add: u)
  }
  {
    assume t: "txType tx = MatchedRFQTxType T"
    with d have "txType tx \<noteq> RFQRequestTxType T" "txType tx \<noteq> OpenRFQTxType T"
      "txType tx \<noteq> ClosedRFQTxType T"
      by auto
    with t show "WriteRFQTxs T EncodeRLP bc tx
          = (Returns (kvError (fst (Put (matchedRFQSTable bc) (txReferenceTxHash tx) (txData tx)))),
             bc\<lparr>matchedRFQSTable := snd (Put (matchedRFQSTable bc) (txReferenceTxHash tx) (txData tx))\<rparr>)"
      by (simp add: u)
  }
  {
    assume t: "txType tx = SettledRFQTxType T"
    with d have "txType tx \<noteq> RFQRequestTxType T" "txType tx \<noteq> OpenRFQTxType T"
      "txType tx \<noteq> ClosedRFQTxType T" "txType tx \<noteq> MatchedRFQTxType T"
      by auto
    with t show "WriteRFQTxs T EncodeRLP bc tx
          = (Returns (kvError (fst (Put (settledRFQSTable bc) (txReferenceTxHash tx) (txData tx)))),
             bc\<lparr>settledRFQSTable := snd (Put (settledRFQSTable bc) (txReferenceTxHash tx) (txData tx))\<rparr>)"
      by (simp add: u)
  }
  {
    assume t: "txType tx = QuoteTxType T"
    with d have "txType tx \<noteq> RFQRequestTxType T" "txType tx \<noteq> OpenRFQTxType T"
      "txType tx \<noteq> ClosedRFQTxType T" "txType tx \<noteq> MatchedRFQTxType T"
      "txType tx \<noteq> SettledRFQTxType T"
      by auto
    with t show "WriteRFQTxs T EncodeRLP bc tx
          = (Returns (kvError (fst (Put (quotesTable bc) (txReferenceTxHash tx) (txData tx)))),
             bc\<lparr>quotesTable := snd (Put (quotesTable bc) (txReferenceTxHash tx) (txData tx))\<rparr>)"
      by (simp add: u)
  }
  {
    assume "txType tx \<notin> set [RFQRequestTxType T, OpenRFQTxType T, ClosedRFQTxType T,
                         MatchedRFQTxType T, SettledRFQTxType T, QuoteTxType T]"
    then show "WriteRFQTxs T EncodeRLP bc tx = (Returns (Some (UnknownTransactionType (txType tx))), bc)"
      by (simp add: u)
  }
  {
    assume "failure t = None"
    then show "fst (Put t k v) = None" and "map_of (rows (snd (Put t k v))) k = Some v"
      by (simp_all add: Put_healthy)
  }
qed

theorem WriteRFQTxs_routes_by_type_witness:
  "distinct [RFQRequestTxType sample_types, OpenRFQTxType sample_types, ClosedRFQTxType sample_types,
             MatchedRFQTxType sample_types, SettledRFQTxType sample_types, QuoteTxType sample_types]
   \<and> lock sample_chain = unlocked
   \<and> txType sample_tx = RFQRequestTxType sample_types
   \<and> WriteRFQTxs sample_types sample_encode sample_chain sample_tx
        = (Returns None,
           sample_chain\<lparr>rfqRequestsTable := \<lparr>rows = [(0x1234, [0x31, 0x31, 0x39])], failure = None\<rparr>\<rparr>)
   \<and> WriteRFQTxs sample_types sample_encode sample_chain
          (sample_tx\<lparr>txType := 5, txReferenceTxHash := 0x1234\<rparr>)
        = (Returns None,
           sample_chain\<lparr>quotesTable := \<lparr>rows = [(0x1234, [7, 7])], failure = None\<rparr>\<rparr>)
   \<and> WriteRFQTxs sample_types sample_encode sample_chain (sample_tx\<lparr>txType := 9\<rparr>)
        = (Returns (Some (UnknownTransactionType 9)), sample_chain)"
proof -
  have d: "distinct [RFQRequestTxType sample_types, OpenRFQTxType sample_types,
             ClosedRFQTxType sample_types, MatchedRFQTxType sample_types,
             SettledRFQTxType sample_types, QuoteTxType sample_types]
           \<and> lock sample_chain = unlocked"
    by (simp add: sample_types_def sample_chain_def)
  have t: "txType sample_tx = RFQRequestTxType sample_types
           \<and> txFrom sample_tx = Some 0x0a648918E6039C8b84864Ff0Aa287B5455cF8aE7
           \<and> sample_encode \<lparr>From = 0x0a648918E6039C8b84864Ff0Aa287B5455cF8aE7,
                 Data = txRFQData sample_tx, V = txV sample_tx, R = txR sample_tx, S = txS sample_tx\<rparr>
               = Inr [0x31, 0x31, 0x39]"
    by (simp add: sample_types_def sample_tx_def sample_encode_def sample_data_def)
  have q: "txType (sample_tx\<lparr>txType := 5, txReferenceTxHash := 0x1234\<rparr>) = QuoteTxType sample_types"
    by (simp add: sample_types_def)
  have n: "txType (sample_tx\<lparr>txType := 9\<rparr>)
             \<notin> set [RFQRequestTxType sample_types, OpenRFQTxType sample_types,
                     ClosedRFQTxType sample_types, MatchedRFQTxType sample_types,
                     SettledRFQTxType sample_types, QuoteTxType sample_types]"
    by (simp add: sample_types_def)
  have p: "Put (rfqRequestsTable sample_chain) (txHash sample_tx) [0x31, 0x31, 0x39]
             = (None, \<lparr>rows = [(0x1234, [0x31, 0x31, 0x39])], failure = None\<rparr>)"
    by (simp add: Put_def sample_chain_def sample_tx_def empty_table_def)
  have p': "Put (quotesTable sample_chain) 0x1234 [7, 7]
             = (None, \<lparr>rows = [(0x1234, [7, 7])], failure = None\<rparr>)"
    by (simp add: Put_def sample_chain_def empty_table_def)
  from WriteRFQTxs_routes_by_type
         [where T = sample_types and bc = sample_chain and tx = sample_tx
            and EncodeRLP = sample_encode, THEN mp, OF d, THEN conjunct1, THEN mp, OF t]
  have a: "WriteRFQTxs sample_types sample_encode sample_chain sample_tx
        = (Returns None,
           sample_chain\<lparr>rfqRequestsTable := \<lparr>rows = [(0x1234, [0x31, 0x31, 0x39])], failure = None\<rparr>\<rparr>)"
    by (simp add: p kvError_def)
  from WriteRFQTxs_routes_by_type
         [where T = sample_types and bc = sample_chain
            and tx = "sample_tx\<lparr>txType := 5, txReferenceTxHash := 0x1234\<rparr>"
            and EncodeRLP = sample_encode, THEN mp, OF d, THEN conjunct2, THEN conjunct2,
          THEN conjunct2, THEN conjunct2, THEN conjunct2, THEN conjunct1, THEN mp, OF q]
  have b: "WriteRFQTxs sample_types sample_encode sample_chain
          (sample_tx\<lparr>txType := 5, txReferenceTxHash := 0x1234\<rparr>)
        = (Returns None,
           sample_chain\<lparr>quotesTable := \<lparr>rows = [(0x1234, [7, 7])], failure = None\<rparr>\<rparr>)"
    by (simp add: p' kvError_def sample_tx_def)
  from WriteRFQTxs_routes_by_type
         [where T = sample_types and bc = sample_chain and tx = "sample_tx\<lparr>txType := 9\<rparr>"
            and EncodeRLP = sample_encode, THEN mp, OF d, THEN conjunct2, THEN conjunct2,
          THEN conjunct2, THEN conjunct2, THEN conjunct2, THEN conjunct2, THEN conjunct1,
          THEN mp, OF n]
  have c: "WriteRFQTxs sample_types sample_encode sample_chain (sample_tx\<lparr>txType := 9\<rparr>)
        = (Returns (Some (UnknownTransactionType 9)), sample_chain)"
    by simp
  from d t a b c show ?thesis
    by simp
qed

subsection \<open>Requests written and read back\<close>

lemma be_bytes_0 [simp]: "be_bytes 0 = []"
  by (simp add: be_bytes.simps[of 0])

lemma be_nat_snoc: "be_nat (bs @ [b]) = 256 * be_nat bs + unat b"
  by (simp add: be_nat_def)

lemma be_nat_be_bytes: "be_nat (be_bytes n) = n"
proof (induction n rule: be_bytes.induct)
  case (1 n)
  show ?case
  proof (cases "n = 0")
    case True
    then show ?thesis by (simp add: be_nat_def)
  next
    case False
    have "unat (of_nat (n mod 256) :: 8 word) = n mod 256"
      by (simp add: unat_of_nat)
    with False 1 show ?thesis
      by (simp add: be_bytes.simps[of n] be_nat_snoc)
  qed
qed

lemma be_bytes_Nil: "be_bytes n = [] \<longleftrightarrow> n = 0"
  by (simp add: be_bytes.simps[of n])

lemma hd_be_bytes: "n \<noteq> 0 \<Longrightarrow> hd (be_bytes n) \<noteq> 0"
proof (induction n rule: be_bytes.induct)
  case (1 n)
  show ?case
  proof (cases "n div 256 = 0")
    case True
    then have "n < 256" by (simp add: div_eq_0_iff)
    with "1.prems" have "(of_nat n :: 8 word) \<noteq> 0"
      by (simp add: of_nat_0 unat_of_nat word_eq_iff_unsigned[where ?'a = nat])
    with True \<open>n < 256\<close> "1.prems" show ?thesis
      by (simp add: be_bytes.simps[of n])
  next
    case False
    with "1.IH" "1.prems" have "hd (be_bytes (n div 256)) \<noteq> 0" "be_bytes (n div 256) \<noteq> []"
      by (simp_all add: be_bytes_Nil)
    with "1.prems" show ?thesis
      by (simp add: be_bytes.simps[of n])
  qed
qed

lemma length_be_bytes: "n < 256 ^ k \<Longrightarrow> length (be_bytes n) \<le> k"
proof (induction n arbitrary: k rule: be_bytes.induct)
  case (1 n)
  show ?case
  proof (cases "n = 0")
    case True
    then show ?thesis by simp
  next
    case False
    with "1.prems" obtain j where k: "k = Suc j"
      by (cases k) auto
    with "1.prems" have "n div 256 < 256 ^ j"
      by (simp add: less_mult_imp_div_less mult.commute)
    with "1.IH"[OF False] have "length (be_bytes (n div 256)) \<le> j" .
    with False k show ?thesis
      by (simp add: be_bytes.simps[of n])
  qed
qed

lemma take_exactly_append: "take_exactly (length xs) (xs @ ys) = Some (xs, ys)"
  by (simp add: take_exactly_def)

lemma unat_byte: "k < 256 \<Longrightarrow> unat (of_nat k :: 8 word) = k"
  by (simp add: unat_of_nat)

lemma rlp_header_read:
  assumes h: "rlp_header offset (length payload) = Some hd_bytes" and o: "offset \<le> 192"
  shows "\<exists>b l. hd_bytes = b # l \<and> offset \<le> unat b \<and> unat b < offset + 64
           \<and> read_payload offset (unat b) (l @ payload @ rest) = Some (payload, rest)"
proof (cases "length payload < 56")
  case True
  define b :: "8 word" where "b = of_nat (offset + length payload)"
  from h True have hb: "hd_bytes = [b]"
    by (simp add: rlp_header_def b_def)
  from True o have u: "unat b = offset + length payload"
    unfolding b_def by (intro unat_byte) simp
  from True have "read_payload offset (unat b) ([] @ payload @ rest) = Some (payload, rest)"
    by (simp add: u read_payload_def take_exactly_append)
  with hb u True show ?thesis
    by simp
next
  case False
  define l where "l = be_bytes (length payload)"
  define b :: "8 word" where "b = of_nat (offset + 55 + length l)"
  from False h have len: "length l \<le> 8" and hb: "hd_bytes = b # l"
    by (auto simp: rlp_header_def Let_def l_def b_def split: if_splits)
  from False have "length payload \<noteq> 0"
    by auto
  then have ne: "l \<noteq> []" "hd l \<noteq> 0"
    unfolding l_def by (simp_all only: be_bytes_Nil hd_be_bytes not_False_eq_True)
  then have pos: "0 < length l"
    by simp
  from len o have u: "unat b = offset + 55 + length l"
    unfolding b_def by (intro unat_byte) simp
  from False ne have ls: "long_size l = Some (length payload)"
    by (simp add: long_size_def l_def be_nat_be_bytes)
  have t: "take_exactly (length l) (l @ payload @ rest) = Some (l, payload @ rest)"
    by (rule take_exactly_append)
  from pos have "read_payload offset (unat b) (l @ payload @ rest) = Some (payload, rest)"
    by (simp add: u read_payload_def t ls take_exactly_append)
  with hb u pos len show ?thesis
    by simp
qed

lemma byte_less: "(b :: 8 word) < of_nat k \<longleftrightarrow> unat b < k" if "k < 256"
  using that by (simp add: word_less_nat_alt unat_byte)

lemma read_string_rlp_string:
  assumes "rlp_string bs = Some enc"
  shows "read_string (enc @ rest) = Some (bs, rest)"
proof (cases "length bs = 1 \<and> hd bs < 0x80")
  case True
  then obtain b where b: "bs = [b]" "b < 0x80"
    by (cases bs) auto
  with assms have "enc = [b]"
    by (simp add: rlp_string_def)
  with b show ?thesis
    by (simp add: read_string_def)
next
  case False
  with assms obtain h where h: "rlp_header 0x80 (length bs) = Some h" and enc: "enc = h @ bs"
    by (auto simp: rlp_string_def)
  from rlp_header_read[OF h, of rest] obtain b l where
    bl: "h = b # l" "128 \<le> unat b" "unat b < 192"
      "read_payload 128 (unat b) (l @ bs @ rest) = Some (bs, rest)"
    by auto
  from bl(2,3) have "\<not> b < 0x80" "b < 0xc0"
    by (simp_all add: word_less_nat_alt)
  with False bl enc show ?thesis
    by (simp add: read_string_def)
qed

lemma read_list_rlp_list:
  assumes "rlp_list payload = Some enc"
  shows "read_list (enc @ rest) = Some (payload, rest)"
proof -
  from assms obtain h where h: "rlp_header 0xc0 (length payload) = Some h" and enc: "enc = h @ payload"
    by (auto simp: rlp_list_def)
  from rlp_header_read[OF h, of rest] obtain b l where
    bl: "h = b # l" "192 \<le> unat b"
      "read_payload 192 (unat b) (l @ payload @ rest) = Some (payload, rest)"
    by auto
  from bl(2) have "\<not> b < 0xc0"
    by (simp add: word_less_nat_alt)
  with bl enc show ?thesis
    by (simp add: read_list_def)
qed

lemma read_uint_rlp_uint:
  assumes "rlp_uint n = Some enc"
  shows "read_uint (enc @ rest) = Some (n, rest)"
proof -
  from assms have "read_string (enc @ rest) = Some (be_bytes n, rest)"
    unfolding rlp_uint_def by (rule read_string_rlp_string)
  moreover have "be_bytes n \<noteq> [] \<longrightarrow> hd (be_bytes n) \<noteq> 0"
    by (simp add: be_bytes_Nil hd_be_bytes)
  ultimately show ?thesis
    by (auto simp: read_uint_def be_nat_be_bytes)
qed

lemma bytes_string_string_bytes: "bytes_string (string_bytes s) = s"
  by (induction s) (simp_all add: bytes_string_def string_bytes_def unat_byte)

lemma be_nat_zeros: "be_nat (replicate k 0 @ bs) = be_nat bs"
  by (induction k) (simp_all add: be_nat_def)

lemma length_address_bytes: "length (address_bytes a) = 20"
proof -
  have "unat a < 2 ^ 160"
    using unsigned_less[of a] by simp
  then have "unat a < 256 ^ 20"
    by simp
  then have "length (be_bytes (unat a)) \<le> 20"
    by (rule length_be_bytes)
  then show ?thesis
    by (simp add: address_bytes_def Let_def)
qed

lemma bytes_address_address_bytes: "bytes_address (address_bytes a) = Some a"
  by (simp add: bytes_address_def length_address_bytes)
     (simp add: address_bytes_def Let_def be_nat_zeros be_nat_be_bytes)

lemma read_uint_rlp_bigint:
  "rlp_bigint i = Some enc \<Longrightarrow> read_uint (enc @ rest) = Some (nat i, rest) \<and> 0 \<le> i"
  by (auto simp: rlp_bigint_def read_uint_rlp_uint split: if_splits)

lemma read_Token_encode_Token:
  assumes "encode_Token t = Some enc"
  shows "read_Token (enc @ rest) = Some (t, rest)"
proof -
  from assms obtain a s d where
    a: "rlp_string (address_bytes (Address t)) = Some a"
    and s: "rlp_string (string_bytes (Symbol t)) = Some s"
    and d: "rlp_uint (Decimals t) = Some d"
    and l: "rlp_list (a @ s @ d) = Some enc"
    by (auto simp: encode_Token_def bind_eq_Some_conv)
  note read_list_rlp_list[OF l, of rest]
    read_string_rlp_string[OF a, of "s @ d"]
    read_string_rlp_string[OF s, of d]
    read_uint_rlp_uint[OF d, of "[]"]
  then show ?thesis
    by (simp add: read_Token_def bytes_address_address_bytes bytes_string_string_bytes)
qed

lemma read_SignableData_encode_SignableData:
  assumes "encode_SignableData x = Some enc"
  shows "read_SignableData (enc @ rest) = Some (x, rest)"
proof -
  from assms obtain i a b q d where
    i: "rlp_string (string_bytes (RequestorId x)) = Some i"
    and a: "rlp_bigint (BaseTokenAmount x) = Some a"
    and b: "encode_Token (BaseToken x) = Some b"
    and q: "encode_Token (QuoteToken x) = Some q"
    and d: "rlp_uint (RFQDurationMs x) = Some d"
    and l: "rlp_list (i @ a @ b @ q @ d) = Some enc"
    by (auto simp: encode_SignableData_def bind_eq_Some_conv)
  note read_list_rlp_list[OF l, of rest]
    read_string_rlp_string[OF i, of "a @ b @ q @ d"]
    read_uint_rlp_bigint[OF a, of "b @ q @ d"]
    read_Token_encode_Token[OF b, of "q @ d"]
    read_Token_encode_Token[OF q, of d]
    read_uint_rlp_uint[OF d, of "[]"]
  then show ?thesis
    by (simp add: read_SignableData_def bytes_string_string_bytes)
qed

lemma read_uint_rlp_bigint_pointer:
  "rlp_bigint_pointer (Some i) = Some enc \<Longrightarrow> read_uint (enc @ rest) = Some (nat i, rest) \<and> 0 \<le> i"
  by (simp add: rlp_bigint_pointer_def read_uint_rlp_bigint)

lemma read_RFQRequest_encode_RFQRequest:
  assumes "encode_RFQRequest x = Some enc" and "V x = Some v" and "R x = Some r" and "S x = Some s"
  shows "read_RFQRequest (enc @ rest) = Some (x, rest)"
proof -
  from assms obtain f d ev er es where
    f: "rlp_string (address_bytes (From x)) = Some f"
    and d: "encode_SignableData (Data x) = Some d"
    and v: "rlp_bigint_pointer (Some v) = Some ev"
    and r: "rlp_bigint_pointer (Some r) = Some er"
    and s: "rlp_bigint_pointer (Some s) = Some es"
    and l: "rlp_list (f @ d @ ev @ er @ es) = Some enc"
    by (auto simp: encode_RFQRequest_def bind_eq_Some_conv)
  note read_list_rlp_list[OF l, of rest]
    read_string_rlp_string[OF f, of "d @ ev @ er @ es"]
    read_SignableData_encode_SignableData[OF d, of "ev @ er @ es"]
    read_uint_rlp_bigint_pointer[OF v, of "er @ es"]
    read_uint_rlp_bigint_pointer[OF r, of es]
    read_uint_rlp_bigint_pointer[OF s, of "[]"]
  with assms(2-4) show ?thesis
    by (simp add: read_RFQRequest_def bytes_address_address_bytes)
qed

lemma DecodeBytes_EncodeRLP:
  assumes "RFQRequest_EncodeRLP x = Inr enc" and "V x \<noteq> None" and "R x \<noteq> None" and "S x \<noteq> None"
  shows "rlp_DecodeBytes enc = Inr x"
proof -
  from assms(1) have e: "encode_RFQRequest x = Some enc"
    by (simp add: RFQRequest_EncodeRLP_def split: option.splits)
  from assms(2-4) obtain v r s where "V x = Some v" "R x = Some r" "S x = Some s"
    by auto
  from read_RFQRequest_encode_RFQRequest[OF e this, of "[]"] show ?thesis
    by (simp add: rlp_DecodeBytes_def)
qed

lemma read_uint_nil_pointer:
  "rlp_bigint_pointer None = Some enc \<Longrightarrow> read_uint (enc @ rest) = Some (0, rest)"
  using read_uint_rlp_uint[of 0 enc rest]
  by (simp add: rlp_bigint_pointer_def rlp_uint_def)

lemma WriteRFQTxs_request_written:
  assumes "lock bc = unlocked" and "rfqRequestsTable bc = empty_table"
    and "txType tx = RFQRequestTxType T" and "txFrom tx = Some a"
    and "fst (WriteRFQTxs T EncodeRLP bc tx) = Returns None"
  shows "\<exists>enc. EncodeRLP \<lparr>From = a, Data = txRFQData tx, V = txV tx, R = txR tx, S = txS tx\<rparr> = Inr enc
           \<and> snd (WriteRFQTxs T EncodeRLP bc tx)
               = bc\<lparr>rfqRequestsTable := \<lparr>rows = [(txHash tx, enc)], failure = None\<rparr>\<rparr>"
  using assms
  by (cases "EncodeRLP \<lparr>From = a, Data = txRFQData tx, V = txV tx, R = txR tx, S = txS tx\<rparr>")
     (simp_all add: WriteRFQTxs_unfold Put_def empty_table_def)

lemma decodeRequests_good_prefix:
  "map DecodeBytes good = map Inr rs \<Longrightarrow>
     decodeRequests DecodeBytes (good @ rest) acc = decodeRequests DecodeBytes rest (acc @ rs)"
proof (induction good arbitrary: acc rs)
  case Nil
  then show ?case by simp
next
  case (Cons x good)
  then obtain r rs' where "rs = r # rs'" "DecodeBytes x = Inr r" "map DecodeBytes good = map Inr rs'"
    by (cases rs) auto
  with Cons.IH[of rs' "acc @ [r]"] show ?case by simp
qed

lemma decodeRequests_Inr:
  "decodeRequests DecodeBytes xs acc = Inr out \<Longrightarrow>
     \<exists>rs. out = acc @ rs \<and> map DecodeBytes xs = map Inr rs"
proof (induction xs arbitrary: acc)
  case Nil
  then show ?case by simp
next
  case (Cons x xs)
  then obtain r where r: "DecodeBytes x = Inr r"
    and rest: "decodeRequests DecodeBytes xs (acc @ [r]) = Inr out"
    by (auto split: sum.splits)
  from Cons.IH[OF rest] obtain rs where "out = (acc @ [r]) @ rs" "map DecodeBytes xs = map Inr rs"
    by blast
  with r show ?case
    by (intro exI[of _ "r # rs"]) simp
qed

text \<open>
  C4. With the request codec as modelled above: when \<^verbatim>\<open>WriteRFQTxs\<close> has written
  (it returned nil) a request transaction that carries its three signature values into an
  empty request table, \<^verbatim>\<open>GetRFQRequests\<close> returns exactly one entry, and it has the
  sender, the request data (requestor id and amount among them) and the signature values of
  the transaction. The decoder reads back every request the encoder writes whose signature
  values are not nil (a nil one reads back as 0, \<open>read_uint_nil_pointer\<close>). For any
  decoder: when a record does not decode, the call returns the error of the first such
  record; when all decode and the iterator reports an error, that error; and a list is
  returned only when the store has not failed, and then it holds every record of the
  table, decoded, in order.
\<close>

theorem RFQ_request_round_trip:
  "(lock bc = unlocked \<and> rfqRequestsTable bc = empty_table
      \<and> txType tx = RFQRequestTxType T \<and> txFrom tx = Some a
      \<and> txV tx \<noteq> None \<and> txR tx \<noteq> None \<and> txS tx \<noteq> None
      \<and> fst (WriteRFQTxs T RFQRequest_EncodeRLP bc tx) = Returns None
    \<longrightarrow> GetRFQRequests rlp_DecodeBytes (snd (WriteRFQTxs T RFQRequest_EncodeRLP bc tx))
            = Inr [\<lparr>From = a, Data = txRFQData tx, V = txV tx, R = txR tx, S = txS tx\<rparr>])
   \<and> (RFQRequest_EncodeRLP x = Inr enc \<and> V x \<noteq> None \<and> R x \<noteq> None \<and> S x \<noteq> None
    \<longrightarrow> rlp_DecodeBytes enc = Inr x)
   \<and> (map snd (rows (rfqRequestsTable bc)) = good @ bad # rest
        \<and> map DecodeBytes good = map Inr rs \<and> DecodeBytes bad = Inl e
    \<longrightarrow> GetRFQRequests DecodeBytes bc = Inl (ErrorDecodingRFQRequest e))
   \<and> (map DecodeBytes (map snd (rows (rfqRequestsTable bc))) = map Inr rs
        \<and> failure (rfqRequestsTable bc) = Some e
    \<longrightarrow> GetRFQRequests DecodeBytes bc = Inl (ErrorIteratingOverTransactions e))
   \<and> (GetRFQRequests DecodeBytes bc = Inr rs
    \<longrightarrow> failure (rfqRequestsTable bc) = None
        \<and> map DecodeBytes (map snd (rows (rfqRequestsTable bc))) = map Inr rs)"
proof (intro conjI impI)
  let ?req = "\<lparr>From = a, Data = txRFQData tx, V = txV tx, R = txR tx, S = txS tx\<rparr>"
  assume a: "lock bc = unlocked \<and> rfqRequestsTable bc = empty_table
      \<and> txType tx = RFQRequestTxType T \<and> txFrom tx = Some a
      \<and> txV tx \<noteq> None \<and> txR tx \<noteq> None \<and> txS tx \<noteq> None
      \<and> fst (WriteRFQTxs T RFQRequest_EncodeRLP bc tx) = Returns None"
  then obtain enc where enc: "RFQRequest_EncodeRLP ?req = Inr enc"
    and w: "snd (WriteRFQTxs T RFQRequest_EncodeRLP bc tx)
              = bc\<lparr>rfqRequestsTable := \<lparr>rows = [(txHash tx, enc)], failure = None\<rparr>\<rparr>"
    using WriteRFQTxs_request_written[of bc tx T a RFQRequest_EncodeRLP] by auto
  from enc a have "rlp_DecodeBytes enc = Inr ?req"
    by (intro DecodeBytes_EncodeRLP) simp_all
  then show "GetRFQRequests rlp_DecodeBytes (snd (WriteRFQTxs T RFQRequest_EncodeRLP bc tx)) = Inr [?req]"
    by (simp add: w GetRFQRequests_def NewIterator_def)
next
  assume "RFQRequest_EncodeRLP x = Inr enc \<and> V x \<noteq> None \<and> R x \<noteq> None \<and> S x \<noteq> None"
  then show "rlp_DecodeBytes enc = Inr x"
    by (intro DecodeBytes_EncodeRLP) simp_all
next
  assume "map snd (rows (rfqRequestsTable bc)) = good @ bad # rest
        \<and> map DecodeBytes good = map Inr rs \<and> DecodeBytes bad = Inl e"
  then show "GetRFQRequests DecodeBytes bc = Inl (ErrorDecodingRFQRequest e)"
    by (simp add: GetRFQRequests_def NewIterator_def decodeRequests_good_prefix)
next
  assume "map DecodeBytes (map snd (rows (rfqRequestsTable bc))) = map Inr rs
        \<and> failure (rfqRequestsTable bc) = Some e"
  then show "GetRFQRequests DecodeBytes bc = Inl (ErrorIteratingOverTransactions e)"
    using decodeRequests_good_prefix[of DecodeBytes "map snd (rows (rfqRequestsTable bc))" rs "[]" "[]"]
    by (simp add: GetRFQRequests_def NewIterator_def)
next
  assume g: "GetRFQRequests DecodeBytes bc = Inr rs"
  then have d: "decodeRequests DecodeBytes (map snd (rows (rfqRequestsTable bc))) [] = Inr rs"
    and f: "failure (rfqRequestsTable bc) = None"
    by (auto simp: GetRFQRequests_def NewIterator_def split: sum.splits option.splits)
  from f show "failure (rfqRequestsTable bc) = None" .
  from decodeRequests_Inr[OF d]
  show "map DecodeBytes (map snd (rows (rfqRequestsTable bc))) = map Inr rs"
    by simp
qed

lemma sample_request_encodes: "encode_RFQRequest sample_request \<noteq> None"
  by (simp add: encode_RFQRequest_def encode_SignableData_def encode_Token_def sample_request_def
      sample_data_def rlp_string_def rlp_list_def rlp_uint_def rlp_bigint_def rlp_bigint_pointer_def
      rlp_header_def address_bytes_def string_bytes_def be_bytes.simps Let_def)

theorem RFQ_request_round_trip_witness:
  "lock sample_chain = unlocked \<and> rfqRequestsTable sample_chain = empty_table
   \<and> txType sample_tx = RFQRequestTxType sample_types
   \<and> txV sample_tx = Some 27 \<and> txR sample_tx = Some 11 \<and> txS sample_tx = Some 13
   \<and> fst (WriteRFQTxs sample_types RFQRequest_EncodeRLP sample_chain sample_tx) = Returns None
   \<and> GetRFQRequests rlp_DecodeBytes
        (snd (WriteRFQTxs sample_types RFQRequest_EncodeRLP sample_chain sample_tx))
        = Inr [sample_request]
   \<and> RequestorId (Data sample_request) = ''119''
   \<and> BaseTokenAmount (Data sample_request) = 1000000000000000000"
proof -
  have r: "\<lparr>From = 0x0a648918E6039C8b84864Ff0Aa287B5455cF8aE7, Data = txRFQData sample_tx,
            V = txV sample_tx, R = txR sample_tx, S = txS sample_tx\<rparr> = sample_request"
    by (simp add: sample_request_def sample_tx_def)
  from sample_request_encodes obtain enc where "RFQRequest_EncodeRLP sample_request = Inr enc"
    by (auto simp: RFQRequest_EncodeRLP_def)
  then have w: "fst (WriteRFQTxs sample_types RFQRequest_EncodeRLP sample_chain sample_tx) = Returns None"
    using r
    by (simp add: WriteRFQTxs_unfold sample_chain_def sample_types_def sample_tx_def Put_def
        empty_table_def kvError_def)
  have h: "lock sample_chain = unlocked \<and> rfqRequestsTable sample_chain = empty_table
      \<and> txType sample_tx = RFQRequestTxType sample_types
      \<and> txFrom sample_tx = Some 0x0a648918E6039C8b84864Ff0Aa287B5455cF8aE7
      \<and> txV sample_tx \<noteq> None \<and> txR sample_tx \<noteq> None \<and> txS sample_tx \<noteq> None
      \<and> fst (WriteRFQTxs sample_types RFQRequest_EncodeRLP sample_chain sample_tx) = Returns None"
    using w by (simp add: sample_chain_def sample_tx_def sample_types_def)
  from RFQ_request_round_trip
         [where bc = sample_chain and tx = sample_tx and T = sample_types,
          THEN conjunct1, THEN mp, OF h]
  have "GetRFQRequests rlp_DecodeBytes
          (snd (WriteRFQTxs sample_types RFQRequest_EncodeRLP sample_chain sample_tx))
        = Inr [sample_request]"
    by (simp only: r)
  with h show ?thesis
    by (simp add: sample_request_def sample_data_def sample_tx_def)
qed

subsection \<open>Answering a request for blocks\<close>

lemma GetBlock_headers: "headers (snd (GetBlock hh bc i)) = headers bc"
  by (auto simp: GetBlock_def Let_def split: outcome.splits option.splits sum.splits)

lemma GetBlock_at_length_fails:
  "fst (GetBlock hh bc (int (length (headers bc)))) \<noteq> Returns (Inr blk)"
  by (auto simp: GetBlock_def Height_def split: option.splits)

lemma collectBlocks_past_end:
  "int (length (headers bc)) \<in> set hs \<Longrightarrow> fst (collectBlocks hh bc hs acc) \<noteq> Returns (Inr out)"
proof (induction hs arbitrary: bc acc)
  case Nil
  then show ?case by simp
next
  case (Cons i hs)
  show ?case
  proof (cases "GetBlock hh bc i")
    case (Pair r bc')
    with GetBlock_headers[of hh bc i] have h: "headers bc' = headers bc" by simp
    show ?thesis
    proof (cases r)
      case (Returns x)
      show ?thesis
      proof (cases x)
        case (Inl e)
        with Pair Returns show ?thesis by simp
      next
        case (Inr blk)
        with Pair Returns GetBlock_at_length_fails[of hh bc blk] have "i \<noteq> int (length (headers bc))"
          by auto
        with Cons.prems h have "int (length (headers bc')) \<in> set hs" by simp
        from Cons.IH[OF this] Pair Returns Inr show ?thesis by simp
      qed
    qed (use Pair in simp_all)
  qed
qed

lemma sint_of_nat_small: "n < 2 ^ 63 \<Longrightarrow> sint (of_nat n :: 64 word) = int n"
  using Int64_of_nat[of n] by (simp add: Int64_def)

lemma processGetBlocksMessage_up_to_length:
  assumes len: "length (headers (chain s)) < 2 ^ 63"
    and f: "gbFrom data = of_nat (length (headers (chain s)))"
    and t: "gbTo data \<le> gbFrom data"
  shows "fst (processGetBlocksMessage gobEncode hh s from_addr data) \<noteq> Returns None
         \<and> peerMap (snd (processGetBlocksMessage gobEncode hh s from_addr data)) = peerMap s"
proof -
  let ?n = "length (headers (chain s))"
  have sf: "sint (gbFrom data) = int ?n"
    using len f by (simp add: sint_of_nat_small)
  have uf: "unat (gbFrom data) = ?n"
    using len f by (simp add: of_nat_inverse)
  from t uf have "unat (gbTo data) \<le> ?n"
    by (simp add: word_le_nat_alt)
  with len have "gbTo data = of_nat (unat (gbTo data))" "unat (gbTo data) < 2 ^ 63"
    by simp_all
  then have st: "sint (gbTo data) = int (unat (gbTo data))"
    using sint_of_nat_small by metis
  from \<open>unat (gbTo data) \<le> ?n\<close> have "int (unat (gbTo data)) \<le> int ?n"
    by (simp only: of_nat_le_iff)
  with st sf have "sint (gbTo data) \<le> int ?n \<and> int ?n \<le> sint (gbFrom data)"
    by (simp only: order_refl simp_thms)
  then have "int ?n \<in> set [sint (gbTo data) .. sint (gbFrom data)]"
    by simp
  then have nb: "\<And>out. fst (collectBlocks hh (chain s) [sint (gbTo data) .. sint (gbFrom data)] [])
                   \<noteq> Returns (Inr out)"
    by (rule collectBlocks_past_end)
  obtain r c where rc: "collectBlocks hh (chain s) [sint (gbTo data) .. sint (gbFrom data)] [] = (r, c)"
    by (cases "collectBlocks hh (chain s) [sint (gbTo data) .. sint (gbFrom data)] []")
  with nb have "\<And>out. r \<noteq> Returns (Inr out)"
    by auto
  with rc f t show ?thesis
    by (auto simp: processGetBlocksMessage_def Headers_def Let_def split: outcome.splits sum.splits)
qed

text \<open>
  C5. \<^verbatim>\<open>processGetBlocksMessage\<close> walks the heights \<^verbatim>\<open>To\<close> to \<^verbatim>\<open>From\<close> when both are at
  most the header count, and a range beyond that gets the empty batch. The header count
  itself is not a height of the chain, yet it passes the guard: a request whose \<^verbatim>\<open>From\<close>
  is the responder's header count (what \<^verbatim>\<open>requestBlocksLoop\<close> sends after a status
  message) ends in the error of \<^verbatim>\<open>GetBlock\<close> and nothing is sent to the peer
  (\<open>processGetBlocksMessage_up_to_length\<close>). On the validator with the genesis block only:
  the range 0 to 1 returns the error and leaves the peer without reply; the range 0 to 2
  is answered with an empty batch.
\<close>

theorem processGetBlocksMessage_range_to_length_fails:
  "processGetBlocksMessage sample_gob sample_hash sample_server ''10.0.0.2:3000'' \<lparr>gbFrom = 1, gbTo = 0\<rparr>
     = (Returns (Some (HeightLessThanRequested 0 1)), sample_server)
   \<and> fst (processGetBlocksMessage sample_gob sample_hash sample_server ''10.0.0.2:3000'' \<lparr>gbFrom = 2, gbTo = 0\<rparr>)
     = Returns None
   \<and> peerMap (snd (processGetBlocksMessage sample_gob sample_hash sample_server ''10.0.0.2:3000''
         \<lparr>gbFrom = 2, gbTo = 0\<rparr>)) ''10.0.0.2:3000''
     = Some \<lparr>sent = [NewMessage MessageTypeBlocks [2, 0] ''validator''], writeFailure = None\<rparr>"
  apply (intro conjI)
  apply (simp add: processGetBlocksMessage_def sample_server_def Headers_def genesis_chain_def sample_chain_def
      GetBlock_def GetBlockHeader_def Height_def RLock_def RUnlock_def unlocked_def Let_def
      ReadBlock_def uint64_def sample_hash_def sample_header_def upto.simps)
  apply (simp add: processGetBlocksMessage_def sample_server_def Headers_def genesis_chain_def sample_chain_def
      sample_gob_def Send_def sample_peer_def NewMessage_def word_le_nat_alt)
  apply (simp add: processGetBlocksMessage_def sample_server_def Headers_def genesis_chain_def sample_chain_def
      sample_gob_def Send_def sample_peer_def NewMessage_def word_le_nat_alt)
  done

subsection \<open>Admitting and flooding transactions\<close>

lemma broadcastTx_ignores_tx: "broadcastTx s tx = broadcastTx s tx'"
  by (simp add: broadcastTx_def)

lemma broadcastBlock_never_sends:
  "fst (broadcastBlock s b) = Hangs \<and> peerMap (snd (broadcastBlock s b)) = peerMap s"
  by (simp add: broadcastBlock_def broadcast_def Lock_def RLock_def Let_def)

lemma processTransaction_known:
  "Contains (memPool s) (txHash tx) \<Longrightarrow> processTransaction s tx = (Returns None, s)"
  by (simp add: processTransaction_def)

lemma broadcast_memPool: "memPool (snd (broadcast s m)) = memPool s"
  by (simp add: broadcast_def Let_def split: option.splits)

lemma processTransaction_new:
  "\<not> Contains (memPool s) (txHash tx) \<Longrightarrow>
     fst (processTransaction s tx) = Returns None
     \<and> memPool (snd (processTransaction s tx)) = memPool s @ [tx]"
  by (simp add: processTransaction_def Let_def broadcastTx_def broadcast_memPool Add_def)

lemma processTransaction_one_copy:
  "distinct (map txHash (memPool s)) \<Longrightarrow>
     distinct (map txHash (memPool (snd (processTransaction s tx))))"
  by (cases "Contains (memPool s) (txHash tx)")
     (auto simp: processTransaction_known processTransaction_new Contains_def)

text \<open>
  C6. A transaction whose hash is in the pool is answered with nil and nothing else
  happens (\<open>processTransaction_known\<close>); a new one is appended to the pool
  (\<open>processTransaction_new\<close>), and the pool never holds two transactions of one hash
  (\<open>processTransaction_one_copy\<close>). What goes to the peers for a new transaction is a
  message of type \<^verbatim>\<open>MessageTypeTx\<close> with an empty payload, the same for every transaction
  (\<open>broadcastTx_ignores_tx\<close>): on the validator with one peer, the transaction is in the
  pool and the peer has been sent the empty message.
\<close>

theorem processTransaction_broadcast_carries_no_transaction:
  "\<not> Contains (memPool sample_server) (txHash sample_tx)
   \<and> fst (processTransaction sample_server sample_tx) = Returns None
   \<and> memPool (snd (processTransaction sample_server sample_tx)) = [sample_tx]
   \<and> peerMap (snd (processTransaction sample_server sample_tx)) ''10.0.0.2:3000''
        = Some \<lparr>sent = [\<lparr>msgType = MessageTypeTx, msgData = [], msgID = ''validator''\<rparr>],
                 writeFailure = None\<rparr>"
  by (simp add: processTransaction_def broadcastTx_def broadcast_def RLock_def RUnlock_def Send_def
        NewMessage_def Contains_def Add_def Let_def sample_server_def sample_peer_def unlocked_def)

text \<open>
  C10. \<^verbatim>\<open>processTransaction\<close> has no signature check: a transaction without signature
  values, which the signature check rejects, is appended to the pool and the call returns
  nil; \<^verbatim>\<open>VerifyBlock\<close> returns the signature error for a block that holds it and leaves
  the ledger as it was. The peer is sent the message with the empty payload, not the
  transaction.
\<close>

theorem processTransaction_admits_unverified:
  "sample_verify unsigned_tx = Some (External ''invalid signature'')
   \<and> fst (processTransaction sample_server unsigned_tx) = Returns None
   \<and> memPool (snd (processTransaction sample_server unsigned_tx)) = [unsigned_tx]
   \<and> peerMap (snd (processTransaction sample_server unsigned_tx)) ''10.0.0.2:3000''
        = Some \<lparr>sent = [\<lparr>msgType = MessageTypeTx, msgData = [], msgID = ''validator''\<rparr>],
                 writeFailure = None\<rparr>
   \<and> VerifyBlock (\<lambda>bc b. None) sample_verify sample_hash genesis_chain
        (Some (sample_block1\<lparr>transactions := [unsigned_tx]\<rparr>))
        = (Returns (Some (External ''invalid signature'')), genesis_chain)"
  by (simp add: processTransaction_def broadcastTx_def broadcast_def RLock_def RUnlock_def Send_def
        NewMessage_def Contains_def Add_def Let_def sample_server_def sample_peer_def unlocked_def
        sample_verify_def unsigned_tx_def sample_tx_def VerifyBlock_def sample_block1_def
        genesis_chain_def sample_chain_def)

subsection \<open>Producing a block\<close>

lemma broadcastBlock_frame:
  "memPool (snd (broadcastBlock s b)) = memPool s \<and> chain (snd (broadcastBlock s b)) = chain s"
  by (simp add: broadcastBlock_def broadcast_def Lock_def RLock_def Let_def)

lemma CreateNewBlock_error_keeps_pool:
  "fst (CreateNewBlock GetHeader NewBlockFromPrevHeader Sign ValidateBlock Verify hh s) \<noteq> Returns None \<Longrightarrow>
     memPool (snd (CreateNewBlock GetHeader NewBlockFromPrevHeader Sign ValidateBlock Verify hh s))
       = memPool s"
  by (auto simp: CreateNewBlock_def Let_def split: outcome.splits sum.splits option.splits prod.splits)

lemma CreateNewBlock_success:
  "fst (CreateNewBlock GetHeader NewBlockFromPrevHeader Sign ValidateBlock Verify hh s) = Returns None \<Longrightarrow>
     memPool (snd (CreateNewBlock GetHeader NewBlockFromPrevHeader Sign ValidateBlock Verify hh s)) = []
     \<and> peerMap (snd (CreateNewBlock GetHeader NewBlockFromPrevHeader Sign ValidateBlock Verify hh s))
         = peerMap s"
  by (auto simp: CreateNewBlock_def Let_def ClearPending_def broadcastBlock_never_sends
      broadcastBlock_frame split: outcome.splits sum.splits option.splits prod.splits)

text \<open>
  C8. When \<^verbatim>\<open>CreateNewBlock\<close> does not return nil the pool is as it was
  (\<open>CreateNewBlock_error_keeps_pool\<close>); when it returns nil the pool is empty
  (\<open>CreateNewBlock_success\<close>). \<^verbatim>\<open>broadcastBlock\<close> sends nothing: it takes the write lock
  of \<^verbatim>\<open>s.mu\<close> and then calls \<^verbatim>\<open>broadcast\<close>, which waits for the read lock of the same
  mutex (\<open>broadcastBlock_never_sends\<close>). On the validator with one transaction pending:
  the step returns nil, the pool is empty, the chain has two headers, the peer has been
  sent nothing, and the mutex stays write-locked.
\<close>

theorem CreateNewBlock_broadcast_sends_nothing:
  "fst (CreateNewBlock sample_GetHeader sample_NewBlockFromPrevHeader sample_Sign (\<lambda>bc b. None) sample_verify
          sample_hash (sample_server\<lparr>memPool := [sample_tx]\<rparr>)) = Returns None
   \<and> memPool (snd (CreateNewBlock sample_GetHeader sample_NewBlockFromPrevHeader sample_Sign (\<lambda>bc b. None)
          sample_verify sample_hash (sample_server\<lparr>memPool := [sample_tx]\<rparr>))) = []
   \<and> length (Headers (chain (snd (CreateNewBlock sample_GetHeader sample_NewBlockFromPrevHeader sample_Sign
          (\<lambda>bc b. None) sample_verify sample_hash (sample_server\<lparr>memPool := [sample_tx]\<rparr>))))) = 2
   \<and> peerMap (snd (CreateNewBlock sample_GetHeader sample_NewBlockFromPrevHeader sample_Sign (\<lambda>bc b. None)
          sample_verify sample_hash (sample_server\<lparr>memPool := [sample_tx]\<rparr>))) ''10.0.0.2:3000''
        = Some \<lparr>sent = [], writeFailure = None\<rparr>
   \<and> mu (snd (CreateNewBlock sample_GetHeader sample_NewBlockFromPrevHeader sample_Sign (\<lambda>bc b. None)
          sample_verify sample_hash (sample_server\<lparr>memPool := [sample_tx]\<rparr>)))
        = \<lparr>writer = True, readers = 0\<rparr>"
proof -
  have c: "CreateNewBlock sample_GetHeader sample_NewBlockFromPrevHeader sample_Sign (\<lambda>bc b. None)
             sample_verify sample_hash (sample_server\<lparr>memPool := [sample_tx]\<rparr>)
           = (Returns None,
              sample_server\<lparr>memPool := [], mu := \<lparr>writer = True, readers = 0\<rparr>,
                chain := snd (VerifyBlock (\<lambda>bc b. None) sample_verify sample_hash genesis_chain
                  (Some \<lparr>header = Some (sample_header\<lparr>ParentHash := 0xAB00, hdrHeight := 1,
                                          BlockSignature := Some [9, 9]\<rparr>),
                         transactions = [sample_tx], Validator = Some [9, 9]\<rparr>))\<rparr>)"
    by (simp add: CreateNewBlock_def Height_def RLock_def sample_server_def genesis_chain_def
        sample_chain_def unlocked_def sample_GetHeader_def GetBlockHeader_def Int64_def
        sample_NewBlockFromPrevHeader_def sample_Sign_def Pending_def ClearPending_def
        VerifyBlock_def sample_verify_def sample_tx_def addBlockWithoutValidation_def Lock_def
        Unlock_def Let_def broadcastBlock_def broadcast_def sample_hash_def sample_header_def)
  show ?thesis
    unfolding c
    by (simp add: sample_server_def sample_peer_def Headers_def VerifyBlock_def sample_verify_def
        sample_tx_def addBlockWithoutValidation_def Lock_def Unlock_def Let_def genesis_chain_def
        sample_chain_def unlocked_def)
qed

subsection \<open>Catching up\<close>

lemma RUnlock_funpow: "(RUnlock ^^ k) m = m\<lparr>readers := readers m - k\<rparr>"
  by (induction k) (simp_all add: RUnlock_def)

lemma requestBlocksLoop_reached:
  "blocksIndex \<le> int (length (Headers (chain s))) \<Longrightarrow>
     requestBlocksLoop gobEncode peer blocksIndex ticks deferred s
       = (Some (Returns None), runDeferred deferred s)"
  by (simp add: requestBlocksLoop.simps[of gobEncode peer blocksIndex ticks deferred s])

lemma requestBlocksLoop_request:
  assumes "int (length (Headers (chain s))) < blocksIndex"
    and "gobEncode (GobGetBlocks \<lparr>gbFrom = uint64 blocksIndex,
                                   gbTo = of_nat (length (Headers (chain s)))\<rparr>) = Inr buf"
    and "\<not> writer (mu s)" and "peerMap s peer = Some p"
  shows "requestBlocksLoop gobEncode peer blocksIndex (tick # rest) deferred s
       = requestBlocksLoop gobEncode peer blocksIndex rest (Suc deferred)
           (tick (s\<lparr>mu := mu s\<lparr>readers := Suc (readers (mu s))\<rparr>,
                    peerMap := (peerMap s)
                      (peer \<mapsto> snd (Send p (NewMessage MessageTypeGetBlocks buf (ID s))))\<rparr>))"
  using assms
  by (simp add: requestBlocksLoop.simps[of gobEncode peer blocksIndex "tick # rest" deferred s]
      RLock_def Let_def case_prod_beta)

lemma RUnlock_deferred:
  "(RUnlock ^^ Suc k) (m\<lparr>readers := Suc (readers m)\<rparr>) = (RUnlock ^^ k) m"
  by (simp add: RUnlock_funpow del: funpow.simps)

lemma requestBlocksLoop_catches_up:
  assumes "\<not> writer (mu s)" and "peerMap s peer = Some p" and "writeFailure p = None"
    and "\<forall>c \<in> set (chain s # pre). int (length (Headers c)) < blocksIndex"
    and "blocksIndex \<le> int (length (Headers final))"
  shows "requestBlocksLoop (\<lambda>v. Inr (g v)) peer blocksIndex
           (map (\<lambda>c s. s\<lparr>chain := c\<rparr>) (pre @ final # post)) deferred s
         = (Some (Returns None),
            s\<lparr>chain := final,
              mu := (RUnlock ^^ deferred) (mu s),
              peerMap := (peerMap s)
                (peer \<mapsto> p\<lparr>sent := sent p @
                   map (\<lambda>c. NewMessage MessageTypeGetBlocks
                               (g (GobGetBlocks \<lparr>gbFrom = uint64 blocksIndex,
                                                  gbTo = of_nat (length (Headers c))\<rparr>)) (ID s))
                       (chain s # pre)\<rparr>)\<rparr>)"
  using assms
proof (induction pre arbitrary: s p deferred)
  case Nil
  let ?buf = "g (GobGetBlocks \<lparr>gbFrom = uint64 blocksIndex, gbTo = of_nat (length (Headers (chain s)))\<rparr>)"
  let ?p' = "p\<lparr>sent := sent p @ [NewMessage MessageTypeGetBlocks ?buf (ID s)]\<rparr>"
  let ?s' = "s\<lparr>mu := mu s\<lparr>readers := Suc (readers (mu s))\<rparr>,
               peerMap := (peerMap s)(peer \<mapsto> ?p'), chain := final\<rparr>"
  from Nil.prems have lt: "int (length (Headers (chain s))) < blocksIndex"
    by simp
  have "requestBlocksLoop (\<lambda>v. Inr (g v)) peer blocksIndex
          (map (\<lambda>c s. s\<lparr>chain := c\<rparr>) ([] @ final # post)) deferred s
        = requestBlocksLoop (\<lambda>v. Inr (g v)) peer blocksIndex (map (\<lambda>c s. s\<lparr>chain := c\<rparr>) post)
            (Suc deferred) ?s'"
    using requestBlocksLoop_request[OF lt _ Nil.prems(1,2), of "\<lambda>v. Inr (g v)" ?buf] Nil.prems(3)
    by (simp add: Send_def)
  also have "\<dots> = (Some (Returns None), runDeferred (Suc deferred) ?s')"
    using Nil.prems(5) by (simp add: requestBlocksLoop_reached)
  also have "runDeferred (Suc deferred) ?s'
        = s\<lparr>chain := final, mu := (RUnlock ^^ deferred) (mu s),
            peerMap := (peerMap s)(peer \<mapsto> p\<lparr>sent := sent p @
                   map (\<lambda>c. NewMessage MessageTypeGetBlocks
                               (g (GobGetBlocks \<lparr>gbFrom = uint64 blocksIndex,
                                                  gbTo = of_nat (length (Headers c))\<rparr>)) (ID s))
                       (chain s # [])\<rparr>)\<rparr>"
    by (rule Server.equality) (simp_all add: runDeferred_def RUnlock_deferred del: funpow.simps)
  finally show ?case .
next
  case (Cons c pre)
  let ?buf = "g (GobGetBlocks \<lparr>gbFrom = uint64 blocksIndex, gbTo = of_nat (length (Headers (chain s)))\<rparr>)"
  let ?p' = "p\<lparr>sent := sent p @ [NewMessage MessageTypeGetBlocks ?buf (ID s)]\<rparr>"
  let ?s' = "s\<lparr>mu := mu s\<lparr>readers := Suc (readers (mu s))\<rparr>,
               peerMap := (peerMap s)(peer \<mapsto> ?p'), chain := c\<rparr>"
  let ?msg = "\<lambda>i c. NewMessage MessageTypeGetBlocks
                (g (GobGetBlocks \<lparr>gbFrom = uint64 blocksIndex, gbTo = of_nat (length (Headers c))\<rparr>)) i"
  from Cons.prems have lt: "int (length (Headers (chain s))) < blocksIndex"
    by simp
  have "requestBlocksLoop (\<lambda>v. Inr (g v)) peer blocksIndex
          (map (\<lambda>c s. s\<lparr>chain := c\<rparr>) ((c # pre) @ final # post)) deferred s
        = requestBlocksLoop (\<lambda>v. Inr (g v)) peer blocksIndex
            (map (\<lambda>c s. s\<lparr>chain := c\<rparr>) (pre @ final # post)) (Suc deferred) ?s'"
    using requestBlocksLoop_request[OF lt _ Cons.prems(1,2), of "\<lambda>v. Inr (g v)" ?buf]
      Cons.prems(3)
    by (simp add: Send_def)
  also have "\<dots> = (Some (Returns None),
            ?s'\<lparr>chain := final,
              mu := (RUnlock ^^ Suc deferred) (mu ?s'),
              peerMap := (peerMap ?s')
                (peer \<mapsto> ?p'\<lparr>sent := sent ?p' @ map (?msg (ID ?s')) (chain ?s' # pre)\<rparr>)\<rparr>)"
    using Cons.prems by (intro Cons.IH) simp_all
  also have "?s'\<lparr>chain := final,
              mu := (RUnlock ^^ Suc deferred) (mu ?s'),
              peerMap := (peerMap ?s')
                (peer \<mapsto> ?p'\<lparr>sent := sent ?p' @ map (?msg (ID ?s')) (chain ?s' # pre)\<rparr>)\<rparr>
        = s\<lparr>chain := final, mu := (RUnlock ^^ deferred) (mu s),
            peerMap := (peerMap s)
              (peer \<mapsto> p\<lparr>sent := sent p @ map (?msg (ID s)) (chain s # c # pre)\<rparr>)\<rparr>"
    by (rule Server.equality) (simp_all add: RUnlock_deferred del: funpow.simps)
  finally show ?case .
qed

text \<open>
  C7. \<^verbatim>\<open>processStatusMessage\<close> returns nil, and it starts a catch-up loop for the
  advertised length exactly when the node is not a validator and has fewer headers than
  advertised; nothing else of the server changes. A pass of \<^verbatim>\<open>requestBlocksLoop\<close> that
  finds the header count at or above the advertised length returns nil without sending. A
  pass that finds it below (the request encodes, the peer is registered, \<^verbatim>\<open>s.mu\<close> is not
  write-locked) sends the peer one \<^verbatim>\<open>GetBlocks\<close> request, from the advertised length to
  the header count, and goes on after the next tick of its ticker. So when the chain the
  loop finds is \<open>pre\<close> tick after tick and then \<open>final\<close>, all of \<open>pre\<close> below the
  advertised length and \<open>final\<close> not, the loop returns nil on the tick that shows
  \<open>final\<close>, having sent one request for its first pass and one for each chain of
  \<open>pre\<close>, none after, and \<^verbatim>\<open>s.mu\<close> is as it was.
\<close>

theorem catch_up_loop_starts_and_stops:
  "processStatusMessage s from_addr data
     = (Returns None,
        if \<not> isValidator s \<and> int (length (Headers (chain s))) < CurrentLength data
        then s\<lparr>started := started s @ [(from_addr, CurrentLength data)]\<rparr>
        else s)
   \<and> (blocksIndex \<le> int (length (Headers (chain s))) \<longrightarrow>
        requestBlocksLoop gobEncode peer blocksIndex ticks deferred s
          = (Some (Returns None), runDeferred deferred s))
   \<and> (int (length (Headers (chain s))) < blocksIndex
        \<and> gobEncode (GobGetBlocks \<lparr>gbFrom = uint64 blocksIndex,
                                     gbTo = of_nat (length (Headers (chain s)))\<rparr>) = Inr buf
        \<and> \<not> writer (mu s) \<and> peerMap s peer = Some p \<longrightarrow>
        requestBlocksLoop gobEncode peer blocksIndex (tick # rest) deferred s
          = requestBlocksLoop gobEncode peer blocksIndex rest (Suc deferred)
              (tick (s\<lparr>mu := mu s\<lparr>readers := Suc (readers (mu s))\<rparr>,
                       peerMap := (peerMap s)
                         (peer \<mapsto> snd (Send p (NewMessage MessageTypeGetBlocks buf (ID s))))\<rparr>)))
   \<and> (\<not> writer (mu s) \<and> peerMap s peer = Some p \<and> writeFailure p = None
        \<and> (\<forall>c \<in> set (chain s # pre). int (length (Headers c)) < blocksIndex)
        \<and> blocksIndex \<le> int (length (Headers final)) \<longrightarrow>
        requestBlocksLoop (\<lambda>v. Inr (g v)) peer blocksIndex
            (map (\<lambda>c s. s\<lparr>chain := c\<rparr>) (pre @ final # post)) 0 s
          = (Some (Returns None),
             s\<lparr>chain := final,
               peerMap := (peerMap s)
                 (peer \<mapsto> p\<lparr>sent := sent p @
                    map (\<lambda>c. NewMessage MessageTypeGetBlocks
                                (g (GobGetBlocks \<lparr>gbFrom = uint64 blocksIndex,
                                                   gbTo = of_nat (length (Headers c))\<rparr>)) (ID s))
                        (chain s # pre)\<rparr>)\<rparr>))"
proof (intro conjI impI)
  show "processStatusMessage s from_addr data
     = (Returns None,
        if \<not> isValidator s \<and> int (length (Headers (chain s))) < CurrentLength data
        then s\<lparr>started := started s @ [(from_addr, CurrentLength data)]\<rparr>
        else s)"
    by (simp add: processStatusMessage_def Let_def)
next
  assume "blocksIndex \<le> int (length (Headers (chain s)))"
  then show "requestBlocksLoop gobEncode peer blocksIndex ticks deferred s
          = (Some (Returns None), runDeferred deferred s)"
    by (rule requestBlocksLoop_reached)
next
  assume "int (length (Headers (chain s))) < blocksIndex
        \<and> gobEncode (GobGetBlocks \<lparr>gbFrom = uint64 blocksIndex,
                                     gbTo = of_nat (length (Headers (chain s)))\<rparr>) = Inr buf
        \<and> \<not> writer (mu s) \<and> peerMap s peer = Some p"
  then show "requestBlocksLoop gobEncode peer blocksIndex (tick # rest) deferred s
          = requestBlocksLoop gobEncode peer blocksIndex rest (Suc deferred)
              (tick (s\<lparr>mu := mu s\<lparr>readers := Suc (readers (mu s))\<rparr>,
                       peerMap := (peerMap s)
                         (peer \<mapsto> snd (Send p (NewMessage MessageTypeGetBlocks buf (ID s))))\<rparr>))"
    by (intro requestBlocksLoop_request) simp_all
next
  assume a: "\<not> writer (mu s) \<and> peerMap s peer = Some p \<and> writeFailure p = None
        \<and> (\<forall>c \<in> set (chain s # pre). int (length (Headers c)) < blocksIndex)
        \<and> blocksIndex \<le> int (length (Headers final))"
  then have "requestBlocksLoop (\<lambda>v. Inr (g v)) peer blocksIndex
            (map (\<lambda>c s. s\<lparr>chain := c\<rparr>) (pre @ final # post)) 0 s
          = (Some (Returns None),
             s\<lparr>chain := final, mu := (RUnlock ^^ 0) (mu s),
               peerMap := (peerMap s)
                 (peer \<mapsto> p\<lparr>sent := sent p @
                    map (\<lambda>c. NewMessage MessageTypeGetBlocks
                                (g (GobGetBlocks \<lparr>gbFrom = uint64 blocksIndex,
                                                   gbTo = of_nat (length (Headers c))\<rparr>)) (ID s))
                        (chain s # pre)\<rparr>)\<rparr>)"
    by (intro requestBlocksLoop_catches_up) simp_all
  then show "requestBlocksLoop (\<lambda>v. Inr (g v)) peer blocksIndex
            (map (\<lambda>c s. s\<lparr>chain := c\<rparr>) (pre @ final # post)) 0 s
          = (Some (Returns None),
             s\<lparr>chain := final,
               peerMap := (peerMap s)
                 (peer \<mapsto> p\<lparr>sent := sent p @
                    map (\<lambda>c. NewMessage MessageTypeGetBlocks
                                (g (GobGetBlocks \<lparr>gbFrom = uint64 blocksIndex,
                                                   gbTo = of_nat (length (Headers c))\<rparr>)) (ID s))
                        (chain s # pre)\<rparr>)\<rparr>)"
    by simp
qed

theorem catch_up_loop_starts_and_stops_witness:
  "\<not> isValidator sample_follower
   \<and> processStatusMessage sample_follower ''10.0.0.1:3000'' \<lparr>CurrentLength = 1, stID = ''validator''\<rparr>
       = (Returns None, sample_follower\<lparr>started := [(''10.0.0.1:3000'', 1)]\<rparr>)
   \<and> processStatusMessage (sample_follower\<lparr>isValidator := True\<rparr>) ''10.0.0.1:3000''
         \<lparr>CurrentLength = 1, stID = ''validator''\<rparr>
       = (Returns None, sample_follower\<lparr>isValidator := True\<rparr>)
   \<and> fst (requestBlocksLoop (\<lambda>v. Inr []) ''10.0.0.1:3000'' 1
            (map (\<lambda>c s. s\<lparr>chain := c\<rparr>) [sample_chain, follower_chain, follower_chain]) 0 sample_follower)
       = Some (Returns None)
   \<and> peerMap (snd (requestBlocksLoop (\<lambda>v. Inr []) ''10.0.0.1:3000'' 1
            (map (\<lambda>c s. s\<lparr>chain := c\<rparr>) [sample_chain, follower_chain, follower_chain]) 0 sample_follower))
          ''10.0.0.1:3000''
       = Some \<lparr>sent = [\<lparr>msgType = MessageTypeGetBlocks, msgData = [], msgID = ''follower''\<rparr>,
                        \<lparr>msgType = MessageTypeGetBlocks, msgData = [], msgID = ''follower''\<rparr>],
                writeFailure = None\<rparr>
   \<and> chain (snd (requestBlocksLoop (\<lambda>v. Inr []) ''10.0.0.1:3000'' 1
            (map (\<lambda>c s. s\<lparr>chain := c\<rparr>) [sample_chain, follower_chain, follower_chain]) 0 sample_follower))
       = follower_chain"
proof -
  have h: "\<not> writer (mu sample_follower) \<and> peerMap sample_follower ''10.0.0.1:3000'' = Some sample_peer
        \<and> writeFailure sample_peer = None
        \<and> (\<forall>c \<in> set (chain sample_follower # [sample_chain]). int (length (Headers c)) < 1)
        \<and> 1 \<le> int (length (Headers follower_chain))"
    by (simp add: sample_follower_def sample_peer_def unlocked_def sample_chain_def Headers_def
        follower_chain_def genesis_chain_def)
  note t = catch_up_loop_starts_and_stops
             [where s = sample_follower and from_addr = "''10.0.0.1:3000''"
                and data = "\<lparr>CurrentLength = 1, stID = ''validator''\<rparr>"
                and peer = "''10.0.0.1:3000''" and p = sample_peer and blocksIndex = 1
                and pre = "[sample_chain]" and final = follower_chain and post = "[follower_chain]"
                and g = "\<lambda>v. []"]
  from t[THEN conjunct1]
  have a: "processStatusMessage sample_follower ''10.0.0.1:3000'' \<lparr>CurrentLength = 1, stID = ''validator''\<rparr>
       = (Returns None, sample_follower\<lparr>started := [(''10.0.0.1:3000'', 1)]\<rparr>)"
    by (simp add: sample_follower_def sample_chain_def Headers_def)
  have b: "processStatusMessage (sample_follower\<lparr>isValidator := True\<rparr>) ''10.0.0.1:3000''
         \<lparr>CurrentLength = 1, stID = ''validator''\<rparr>
       = (Returns None, sample_follower\<lparr>isValidator := True\<rparr>)"
    by (simp add: processStatusMessage_def Let_def)
  from t[THEN conjunct2, THEN conjunct2, THEN conjunct2, THEN mp, OF h]
  have c: "requestBlocksLoop (\<lambda>v. Inr []) ''10.0.0.1:3000'' 1
            (map (\<lambda>c s. s\<lparr>chain := c\<rparr>) [sample_chain, follower_chain, follower_chain]) 0 sample_follower
       = (Some (Returns None),
          sample_follower\<lparr>chain := follower_chain,
            peerMap := (peerMap sample_follower)
              (''10.0.0.1:3000'' \<mapsto> sample_peer\<lparr>sent := sent sample_peer @
                 map (\<lambda>c. NewMessage MessageTypeGetBlocks [] (ID sample_follower))
                   [chain sample_follower, sample_chain]\<rparr>)\<rparr>)"
    by simp
  have d: "\<not> isValidator sample_follower"
    by (simp add: sample_follower_def)
  show ?thesis
    unfolding c using a b d
    by (simp add: NewMessage_def sample_peer_def sample_follower_def)
qed

end
